theory Spec2Isabelle
  imports Main "HOL-Library.Word" "HOL-Library.AList"
begin

section \<open>Merging two per-architecture ASAR archives: \<open>mergeASARs\<close>\<close>

text \<open>
  A shallow embedding of \<^verbatim>\<open>src/dist/cjs/asar-utils.js\<close>. The module calls four
  collaborators that are not part of it: the \<^verbatim>\<open>asar\<close> archive library, \<^verbatim>\<open>minimatch\<close>,
  the file system (\<^verbatim>\<open>fs-extra\<close>, \<^verbatim>\<open>os\<close>, \<^verbatim>\<open>path\<close>) and the \<^verbatim>\<open>lipo\<close> process. They are
  parameters of the model (the record \<open>env\<close>): what an archive lists, what a glob
  matches, which call throws. Every call that can throw returns a sum, \<open>Inl\<close> the error.
\<close>

subsection \<open>Data\<close>

type_synonym buffer = "8 word list"

text \<open>
  What \<^verbatim>\<open>asar.statFile\<close> returns, as far as the module looks at it: whether the object
  has a \<^verbatim>\<open>files\<close> key (a directory), and its \<^verbatim>\<open>unpacked\<close> key (\<open>None\<close> when the key is
  absent).
\<close>

record stat =
  has_files :: bool
  unpacked :: "bool option"

text \<open>The collaborator calls the module makes; a failed call is named in its error.\<close>

datatype call =
    ListPackage string
  | StatFile string string
  | ExtractFile string string
  | Mkdtemp string
  | ExtractAll string string
  | Mkdirp string
  | Copy string string
  | Realpath string
  | Lipo string string
  | CreatePackage string string string
  | Remove string

text \<open>
  The errors \<open>mergeASARs\<close> can end with.
  \<^item> \<open>UnmatchedUniqueFile file archive allowList\<close> is the \<^verbatim>\<open>Error\<close> of \<^verbatim>\<open>checkSingleArch\<close>:
    \<^verbatim>\<open>Detected unique file "file" in "archive" not covered by allowList rule: "allowList"\<close>.
  \<^item> \<open>NonBinaryDivergence file\<close> is the \<^verbatim>\<open>Error\<close> of line 113:
    \<^verbatim>\<open>Can't reconcile two non-macho files file\<close>.
  \<^item> \<open>RangeError\<close> is what \<^verbatim>\<open>Buffer.readUInt32LE\<close> throws on a read past the end.
  \<^item> \<open>Failed c\<close> is whatever the collaborator call \<open>c\<close> threw.
\<close>

datatype error =
    UnmatchedUniqueFile string string "string option"
  | NonBinaryDivergence string
  | RangeError
  | Failed call

text \<open>A directory on disk, by relative path: the temporary trees the archives are
  extracted to. Symbolic links are not modelled.\<close>

datatype node = DirNode | FileNode buffer

type_synonym tree = "(string \<times> node) list"

text \<open>The state outside the call: the log of file-system and process calls made so
  far (oldest first, a failed call included), the temporary directories that exist, and
  the archives written by \<^verbatim>\<open>asar.createPackageWithOptions\<close> (destination path, packed
  tree, \<^verbatim>\<open>unpack\<close> option).\<close>

record world =
  events :: "call list"
  tmpdirs :: "string list"
  packages :: "(string \<times> tree \<times> string) list"

record env =
  asar_listPackage :: "string \<Rightarrow> string list option"
  asar_statFile :: "string \<Rightarrow> string \<Rightarrow> stat option"
  asar_extractFile :: "string \<Rightarrow> string \<Rightarrow> buffer option"
  minimatch :: "string \<Rightarrow> string \<Rightarrow> bool"
  os_tmpdir :: string
  fs_mkdtemp :: "string \<Rightarrow> string option"
  lipo_create :: "buffer \<Rightarrow> buffer \<Rightarrow> buffer option"
  fails :: "call list \<Rightarrow> call \<Rightarrow> bool"

text \<open>The argument object of \<open>mergeASARs\<close>; \<open>singleArchFiles\<close> is \<open>None\<close> when
  \<^verbatim>\<open>undefined\<close>.\<close>

record options =
  x64AsarPath :: string
  arm64AsarPath :: string
  outputAsarPath :: string
  singleArchFiles :: "string option"

subsection \<open>Library behaviour the module relies on\<close>

text \<open>A JavaScript \<^verbatim>\<open>Set\<close> keeps its elements in insertion order, each once.\<close>

definition js_set_add :: "'a list \<Rightarrow> 'a \<Rightarrow> 'a list" where
  "js_set_add s x = (if x \<in> set s then s else s @ [x])"

definition js_set :: "'a list \<Rightarrow> 'a list" where
  "js_set xs = fold (\<lambda>x s. js_set_add s x) xs []"

text \<open>\<^verbatim>\<open>buf.readUInt32LE(offset)\<close>: four bytes, least significant first; a
  \<^verbatim>\<open>RangeError\<close> when fewer than four bytes are left.\<close>

definition readUInt32LE :: "buffer \<Rightarrow> nat \<Rightarrow> error + nat" where
  "readUInt32LE buf offset =
     (if offset + 4 \<le> length buf
      then Inr (unat (buf ! offset) + unat (buf ! (offset + 1)) * 2 ^ 8
                + unat (buf ! (offset + 2)) * 2 ^ 16 + unat (buf ! (offset + 3)) * 2 ^ 24)
      else Inl RangeError)"

text \<open>\<^verbatim>\<open>path.join(dir, file)\<close> and \<^verbatim>\<open>path.resolve(dir, file)\<close> for an absolute \<open>dir\<close> and a
  normalised relative \<open>file\<close>; \<^verbatim>\<open>path.dirname\<close> on a relative path, with the empty
  path for the directory itself.\<close>

definition path_join :: "string \<Rightarrow> string \<Rightarrow> string" where
  "path_join dir file = (if file = [] then dir else dir @ ''/'' @ file)"

definition dirname :: "string \<Rightarrow> string" where
  "dirname p = rev (drop 1 (dropWhile (\<lambda>c. c \<noteq> CHR ''/'') (rev p)))"

fun join_with :: "string \<Rightarrow> string list \<Rightarrow> string" where
  "join_with sep [] = []"
| "join_with sep [x] = x"
| "join_with sep (x # y # ys) = x @ sep @ join_with sep (y # ys)"

subsection \<open>The module's constants and helpers (lines 19--57)\<close>

definition MACHO_MAGIC :: "nat set" where
  "MACHO_MAGIC = {0xfeedface, 0xcefaedfe, 0xfeedfacf, 0xcffaedfe}"

definition toRelativePath :: "string \<Rightarrow> string" where
  "toRelativePath file = (case file of c # rest \<Rightarrow> if c = CHR ''/'' then rest else file | [] \<Rightarrow> file)"

definition listPackage :: "env \<Rightarrow> string \<Rightarrow> error + string list" where
  "listPackage e a =
     (case asar_listPackage e a of None \<Rightarrow> Inl (Failed (ListPackage a)) | Some l \<Rightarrow> Inr l)"

definition statFile :: "env \<Rightarrow> string \<Rightarrow> string \<Rightarrow> error + stat" where
  "statFile e a file =
     (case asar_statFile e a file of None \<Rightarrow> Inl (Failed (StatFile a file)) | Some st \<Rightarrow> Inr st)"

definition extractFile :: "env \<Rightarrow> string \<Rightarrow> string \<Rightarrow> error + buffer" where
  "extractFile e a file =
     (case asar_extractFile e a file of None \<Rightarrow> Inl (Failed (ExtractFile a file)) | Some b \<Rightarrow> Inr b)"

definition isDirectory :: "env \<Rightarrow> string \<Rightarrow> string \<Rightarrow> error + bool" where
  "isDirectory e a file =
     (case statFile e a file of Inl x \<Rightarrow> Inl x | Inr st \<Rightarrow> Inr (has_files st))"

definition checkSingleArch :: "env \<Rightarrow> string \<Rightarrow> string \<Rightarrow> string option \<Rightarrow> error + unit" where
  "checkSingleArch e archive file allowList =
     (case allowList of
        None \<Rightarrow> Inl (UnmatchedUniqueFile file archive allowList)
      | Some pat \<Rightarrow>
          if \<not> minimatch e file pat then Inl (UnmatchedUniqueFile file archive allowList)
          else Inr ())"

subsection \<open>\<open>mergeASARs\<close> before the temporary directories (lines 60--116)\<close>

text \<open>Lines 60--61: the listing of an archive as a \<^verbatim>\<open>Set\<close> of relative paths.\<close>

definition listFiles :: "env \<Rightarrow> string \<Rightarrow> error + string list" where
  "listFiles e a =
     (case listPackage e a of Inl x \<Rightarrow> Inl x | Inr l \<Rightarrow> Inr (js_set (map toRelativePath l)))"

text \<open>Lines 66--77; the set \<open>unpackedFiles\<close> of the enclosing function is passed in and
  returned.\<close>

fun buildUnpacked :: "env \<Rightarrow> string \<Rightarrow> string list \<Rightarrow> string list \<Rightarrow> error + string list" where
  "buildUnpacked e a [] unpackedFiles = Inr unpackedFiles"
| "buildUnpacked e a (file # fileList) unpackedFiles =
     (case statFile e a file of
        Inl x \<Rightarrow> Inl x
      | Inr st \<Rightarrow>
          if unpacked st \<noteq> Some True then buildUnpacked e a fileList unpackedFiles
          else if has_files st then buildUnpacked e a fileList unpackedFiles
          else buildUnpacked e a fileList (js_set_add unpackedFiles file))"

text \<open>Lines 83--87: the loop over \<open>x64Files\<close>.\<close>

fun checkX64Unique :: "env \<Rightarrow> options \<Rightarrow> string list \<Rightarrow> string list \<Rightarrow> error + unit" where
  "checkX64Unique e opts arm64Files [] = Inr ()"
| "checkX64Unique e opts arm64Files (file # x64Files) =
     (if file \<notin> set arm64Files
      then (case checkSingleArch e (x64AsarPath opts) file (singleArchFiles opts) of
              Inl x \<Rightarrow> Inl x
            | Inr _ \<Rightarrow> checkX64Unique e opts arm64Files x64Files)
      else checkX64Unique e opts arm64Files x64Files)"

text \<open>Lines 88--94: the loop over \<open>arm64Files\<close>, which fills \<open>arm64Unique\<close>.\<close>

fun checkArm64Unique ::
  "env \<Rightarrow> options \<Rightarrow> string list \<Rightarrow> string list \<Rightarrow> string list \<Rightarrow> error + string list" where
  "checkArm64Unique e opts x64Files [] arm64Unique = Inr arm64Unique"
| "checkArm64Unique e opts x64Files (file # arm64Files) arm64Unique =
     (if file \<notin> set x64Files
      then (case checkSingleArch e (arm64AsarPath opts) file (singleArchFiles opts) of
              Inl x \<Rightarrow> Inl x
            | Inr _ \<Rightarrow> checkArm64Unique e opts x64Files arm64Files (arm64Unique @ [file]))
      else checkArm64Unique e opts x64Files arm64Files arm64Unique)"

text \<open>Lines 98--116: the loop over \<open>x64Files\<close>, which fills \<open>commonBindings\<close>.
  \<^verbatim>\<open>x64Content.compare(arm64Content) === 0\<close> is equality of the two byte sequences.\<close>

fun findCommonBindings ::
  "env \<Rightarrow> options \<Rightarrow> string list \<Rightarrow> string list \<Rightarrow> string list \<Rightarrow> error + string list" where
  "findCommonBindings e opts arm64Files [] commonBindings = Inr commonBindings"
| "findCommonBindings e opts arm64Files (file # x64Files) commonBindings =
     (if file \<notin> set arm64Files then findCommonBindings e opts arm64Files x64Files commonBindings
      else
       (case isDirectory e (x64AsarPath opts) file of
          Inl x \<Rightarrow> Inl x
        | Inr True \<Rightarrow> findCommonBindings e opts arm64Files x64Files commonBindings
        | Inr False \<Rightarrow>
           (case extractFile e (x64AsarPath opts) file of
              Inl x \<Rightarrow> Inl x
            | Inr x64Content \<Rightarrow>
               (case extractFile e (arm64AsarPath opts) file of
                  Inl x \<Rightarrow> Inl x
                | Inr arm64Content \<Rightarrow>
                    if x64Content = arm64Content
                    then findCommonBindings e opts arm64Files x64Files commonBindings
                    else
                     (case readUInt32LE x64Content 0 of
                        Inl x \<Rightarrow> Inl x
                      | Inr magic \<Rightarrow>
                          if magic \<notin> MACHO_MAGIC then Inl (NonBinaryDivergence file)
                          else findCommonBindings e opts arm64Files x64Files
                                 (commonBindings @ [file]))))))"

text \<open>Lines 60--116 in their order: the two listings, the unpacked set, the two loops
  over unique files, the loop over common files. Nothing here touches the file system
  outside the two archives. The result is what the rest of the function uses:
  \<open>(unpackedFiles, arm64Unique, commonBindings)\<close>.\<close>

definition validate :: "env \<Rightarrow> options \<Rightarrow> error + (string list \<times> string list \<times> string list)" where
  "validate e opts =
     (case listFiles e (x64AsarPath opts) of Inl x \<Rightarrow> Inl x | Inr x64Files \<Rightarrow>
     (case listFiles e (arm64AsarPath opts) of Inl x \<Rightarrow> Inl x | Inr arm64Files \<Rightarrow>
     (case buildUnpacked e (x64AsarPath opts) x64Files [] of Inl x \<Rightarrow> Inl x | Inr u1 \<Rightarrow>
     (case buildUnpacked e (arm64AsarPath opts) arm64Files u1 of Inl x \<Rightarrow> Inl x | Inr unpackedFiles \<Rightarrow>
     (case checkX64Unique e opts arm64Files x64Files of Inl x \<Rightarrow> Inl x | Inr _ \<Rightarrow>
     (case checkArm64Unique e opts x64Files arm64Files [] of Inl x \<Rightarrow> Inl x | Inr arm64Unique \<Rightarrow>
     (case findCommonBindings e opts arm64Files x64Files [] of Inl x \<Rightarrow> Inl x | Inr commonBindings \<Rightarrow>
      Inr (unpackedFiles, arm64Unique, commonBindings))))))))"

subsection \<open>The reconciliation sets\<close>

text \<open>The function keeps two of the four sets of the specification in variables:
  \<open>arm64Unique\<close> (unique to the arm64 archive) and \<open>commonBindings\<close> (common files
  that differ). The other two, and the common directories, are the files on which the
  loops take a given branch: line 85 runs for \<open>uniqueToA\<close>, line 105 continues for a
  common directory, line 110 continues for an identical common file, and lines 112--115
  run for a divergent one.\<close>

definition uniqueToA :: "string list \<Rightarrow> string list \<Rightarrow> string list" where
  "uniqueToA x64Files arm64Files = filter (\<lambda>file. file \<notin> set arm64Files) x64Files"

definition isCommonDirectory :: "env \<Rightarrow> options \<Rightarrow> string list \<Rightarrow> string \<Rightarrow> bool" where
  "isCommonDirectory e opts arm64Files file =
     (file \<in> set arm64Files \<and> isDirectory e (x64AsarPath opts) file = Inr True)"

definition isIdentical :: "env \<Rightarrow> options \<Rightarrow> string list \<Rightarrow> string \<Rightarrow> bool" where
  "isIdentical e opts arm64Files file =
     (file \<in> set arm64Files \<and> isDirectory e (x64AsarPath opts) file = Inr False \<and>
      (case extractFile e (x64AsarPath opts) file of
         Inl x \<Rightarrow> False
       | Inr x64Content \<Rightarrow> extractFile e (arm64AsarPath opts) file = Inr x64Content))"

definition isDivergent :: "env \<Rightarrow> options \<Rightarrow> string list \<Rightarrow> string \<Rightarrow> bool" where
  "isDivergent e opts arm64Files file =
     (file \<in> set arm64Files \<and> isDirectory e (x64AsarPath opts) file = Inr False \<and>
      (case extractFile e (x64AsarPath opts) file of
         Inl x \<Rightarrow> False
       | Inr x64Content \<Rightarrow>
          (case extractFile e (arm64AsarPath opts) file of
             Inl x \<Rightarrow> False
           | Inr arm64Content \<Rightarrow> x64Content \<noteq> arm64Content)))"

definition commonDirectories :: "env \<Rightarrow> options \<Rightarrow> string list \<Rightarrow> string list \<Rightarrow> string list" where
  "commonDirectories e opts x64Files arm64Files =
     filter (isCommonDirectory e opts arm64Files) x64Files"

definition identicalCommon :: "env \<Rightarrow> options \<Rightarrow> string list \<Rightarrow> string list \<Rightarrow> string list" where
  "identicalCommon e opts x64Files arm64Files = filter (isIdentical e opts arm64Files) x64Files"


subsection \<open>The file system and the processes, as the module uses them\<close>

text \<open>Each call is logged before its outcome is known. Whether a call throws is the
  environment's choice (\<open>fails\<close>, \<open>fs_mkdtemp\<close>, \<open>lipo_create\<close>), whatever the cause:
  permissions, a full disk, a file in the way, a nonzero exit status. A call that has
  nothing to read (a missing source) throws in any environment.\<close>

definition logged :: "call \<Rightarrow> world \<Rightarrow> world" where
  "logged c w = w\<lparr>events := events w @ [c]\<rparr>"

text \<open>\<^verbatim>\<open>fs.mkdtemp(prefix)\<close>: a new, empty directory whose name the environment picks.\<close>

definition mkdtemp :: "env \<Rightarrow> string \<Rightarrow> world \<Rightarrow> (error + string) \<times> world" where
  "mkdtemp e prefix w =
     (case fs_mkdtemp e prefix of
        None \<Rightarrow> (Inl (Failed (Mkdtemp prefix)), logged (Mkdtemp prefix) w)
      | Some dir \<Rightarrow>
          if dir \<in> set (tmpdirs w) then (Inl (Failed (Mkdtemp prefix)), logged (Mkdtemp prefix) w)
          else (Inr dir, (logged (Mkdtemp prefix) w)\<lparr>tmpdirs := tmpdirs w @ [dir]\<rparr>))"

text \<open>\<^verbatim>\<open>asar.extractAll(archive, dir)\<close> into an empty directory: one node per listed
  path, a directory where the entry has \<^verbatim>\<open>files\<close>, else a file with the entry's bytes.\<close>

fun extractEntries :: "env \<Rightarrow> string \<Rightarrow> string list \<Rightarrow> tree \<Rightarrow> tree option" where
  "extractEntries e a [] t = Some t"
| "extractEntries e a (file # fileList) t =
     (case asar_statFile e a file of
        None \<Rightarrow> None
      | Some st \<Rightarrow>
          if has_files st then extractEntries e a fileList (AList.update file DirNode t)
          else (case asar_extractFile e a file of
                  None \<Rightarrow> None
                | Some b \<Rightarrow> extractEntries e a fileList (AList.update file (FileNode b) t)))"

definition extractAll :: "env \<Rightarrow> string \<Rightarrow> string \<Rightarrow> world \<Rightarrow> (error + tree) \<times> world" where
  "extractAll e a dir w =
     (if fails e (events w) (ExtractAll a dir)
      then (Inl (Failed (ExtractAll a dir)), logged (ExtractAll a dir) w)
      else
       (case asar_listPackage e a of
          None \<Rightarrow> (Inl (Failed (ExtractAll a dir)), logged (ExtractAll a dir) w)
        | Some l \<Rightarrow>
           (case extractEntries e a (map toRelativePath l) [] of
              None \<Rightarrow> (Inl (Failed (ExtractAll a dir)), logged (ExtractAll a dir) w)
            | Some t \<Rightarrow> (Inr t, logged (ExtractAll a dir) w))))"

text \<open>\<^verbatim>\<open>fs.mkdirp\<close>: the directory and every missing parent, up to the root of the tree
  (the empty path).\<close>

function mkdirp_tree :: "tree \<Rightarrow> string \<Rightarrow> tree" where
  "mkdirp_tree t p =
     (if p = [] \<or> map_of t p \<noteq> None then t
      else AList.update p DirNode (mkdirp_tree t (dirname p)))"
  by pat_completeness auto
termination
proof (relation "measure (\<lambda>(t, p). length p)")
  show "wf (measure (\<lambda>(t :: tree, p :: string). length p))"
    by simp
next
  fix t :: tree and p :: string
  assume "\<not> (p = [] \<or> map_of t p \<noteq> None)"
  then have ne: "p \<noteq> []"
    by simp
  define xs where "xs = dropWhile (\<lambda>c. c \<noteq> CHR ''/'') (rev p)"
  have le: "length xs \<le> length p"
    unfolding xs_def using length_dropWhile_le [of "\<lambda>c. c \<noteq> CHR ''/''" "rev p"] by simp
  have "length (drop 1 xs) < length p"
  proof (cases xs)
    case Nil
    then show ?thesis using ne by simp
  next
    case (Cons c cs)
    then show ?thesis using le by simp
  qed
  then show "((t, dirname p), (t, p)) \<in> measure (\<lambda>(t, p). length p)"
    by (simp add: dirname_def xs_def)
qed

declare mkdirp_tree.simps [simp del]

definition fs_mkdirp :: "env \<Rightarrow> string \<Rightarrow> string \<Rightarrow> tree \<Rightarrow> world \<Rightarrow> (error + tree) \<times> world" where
  "fs_mkdirp e dir p t w =
     (if fails e (events w) (Mkdirp (path_join dir p))
      then (Inl (Failed (Mkdirp (path_join dir p))), logged (Mkdirp (path_join dir p)) w)
      else (Inr (mkdirp_tree t p), logged (Mkdirp (path_join dir p)) w))"

text \<open>\<^verbatim>\<open>fs.copy(source, destination)\<close> of the entry at \<open>p\<close> from one tree to the other.\<close>

definition fs_copy ::
  "env \<Rightarrow> string \<Rightarrow> tree \<Rightarrow> string \<Rightarrow> string \<Rightarrow> tree \<Rightarrow> world \<Rightarrow> (error + tree) \<times> world" where
  "fs_copy e srcDir src dstDir p t w =
     (let c = Copy (path_join srcDir p) (path_join dstDir p) in
      if fails e (events w) c then (Inl (Failed c), logged c w)
      else
       (case map_of src p of
          None \<Rightarrow> (Inl (Failed c), logged c w)
        | Some n \<Rightarrow> (Inr (AList.update p n t), logged c w)))"

text \<open>\<^verbatim>\<open>fs.realpath\<close>: without symbolic links, the path itself when it exists.\<close>

definition fs_realpath :: "env \<Rightarrow> string \<Rightarrow> string \<Rightarrow> tree \<Rightarrow> world \<Rightarrow> (error + string) \<times> world" where
  "fs_realpath e dir p t w =
     (let c = Realpath (path_join dir p) in
      if fails e (events w) c \<or> map_of t p = None then (Inl (Failed c), logged c w)
      else (Inr (path_join dir p), logged c w))"

text \<open>\<^verbatim>\<open>execFileSync(LIPO, [source, destination, '-create', '-output', destination])\<close>:
  the two input files are read and the destination is overwritten with what
  \<^verbatim>\<open>lipo\<close> makes of them; \<open>None\<close> is a nonzero exit status.\<close>

definition exec_lipo ::
  "env \<Rightarrow> string \<Rightarrow> string \<Rightarrow> tree \<Rightarrow> string \<Rightarrow> tree \<Rightarrow> world \<Rightarrow> (error + tree) \<times> world" where
  "exec_lipo e source destination src p t w =
     (let c = Lipo source destination in
      case (map_of src p, map_of t p) of
        (Some (FileNode s), Some (FileNode d)) \<Rightarrow>
          (case lipo_create e s d of
             None \<Rightarrow> (Inl (Failed c), logged c w)
           | Some merged \<Rightarrow> (Inr (AList.update p (FileNode merged) t), logged c w))
      | _ \<Rightarrow> (Inl (Failed c), logged c w))"

text \<open>\<^verbatim>\<open>asar.createPackageWithOptions(src, dest, {unpack})\<close>: on success the archive at
  \<open>dest\<close> holds the tree of \<open>src\<close>.\<close>

definition createPackageWithOptions ::
  "env \<Rightarrow> string \<Rightarrow> tree \<Rightarrow> string \<Rightarrow> string \<Rightarrow> world \<Rightarrow> (error + unit) \<times> world" where
  "createPackageWithOptions e src t dest unpack w =
     (let c = CreatePackage src dest unpack in
      if fails e (events w) c then (Inl (Failed c), logged c w)
      else (Inr (), (logged c w)\<lparr>packages := AList.update dest (t, unpack) (packages w)\<rparr>))"

text \<open>\<^verbatim>\<open>fs.remove(dir)\<close>.\<close>

definition fs_remove :: "env \<Rightarrow> string \<Rightarrow> world \<Rightarrow> (error + unit) \<times> world" where
  "fs_remove e dir w =
     (let c = Remove dir in
      if fails e (events w) c then (Inl (Failed c), logged c w)
      else (Inr (), (logged c w)\<lparr>tmpdirs := removeAll dir (tmpdirs w)\<rparr>))"

subsection \<open>\<open>mergeASARs\<close> from the temporary directories on (lines 120--154)\<close>

text \<open>Lines 127--138: the loop over \<open>arm64Unique\<close>. The tree of \<open>x64Dir\<close> is passed in
  and returned; the tree of \<open>arm64Dir\<close> is only read.\<close>

fun copyUnique ::
  "env \<Rightarrow> options \<Rightarrow> string \<Rightarrow> string \<Rightarrow> tree \<Rightarrow> string list \<Rightarrow> tree \<Rightarrow> world
     \<Rightarrow> (error + tree) \<times> world" where
  "copyUnique e opts x64Dir arm64Dir arm64Tree [] x64Tree w = (Inr x64Tree, w)"
| "copyUnique e opts x64Dir arm64Dir arm64Tree (file # arm64Unique) x64Tree w =
     (case isDirectory e (arm64AsarPath opts) file of
        Inl x \<Rightarrow> (Inl x, w)
      | Inr True \<Rightarrow>
         (case fs_mkdirp e x64Dir file x64Tree w of
            (Inl x, w1) \<Rightarrow> (Inl x, w1)
          | (Inr t1, w1) \<Rightarrow> copyUnique e opts x64Dir arm64Dir arm64Tree arm64Unique t1 w1)
      | Inr False \<Rightarrow>
         (case fs_mkdirp e x64Dir (dirname file) x64Tree w of
            (Inl x, w1) \<Rightarrow> (Inl x, w1)
          | (Inr t1, w1) \<Rightarrow>
             (case fs_copy e arm64Dir arm64Tree x64Dir file t1 w1 of
                (Inl x, w2) \<Rightarrow> (Inl x, w2)
              | (Inr t2, w2) \<Rightarrow> copyUnique e opts x64Dir arm64Dir arm64Tree arm64Unique t2 w2)))"

text \<open>Lines 139--144: the loop over \<open>commonBindings\<close>.\<close>

fun mergeBindings ::
  "env \<Rightarrow> string \<Rightarrow> string \<Rightarrow> tree \<Rightarrow> string list \<Rightarrow> tree \<Rightarrow> world \<Rightarrow> (error + tree) \<times> world" where
  "mergeBindings e x64Dir arm64Dir arm64Tree [] x64Tree w = (Inr x64Tree, w)"
| "mergeBindings e x64Dir arm64Dir arm64Tree (binding # commonBindings) x64Tree w =
     (case fs_realpath e arm64Dir binding arm64Tree w of
        (Inl x, w1) \<Rightarrow> (Inl x, w1)
      | (Inr source, w1) \<Rightarrow>
         (case fs_realpath e x64Dir binding x64Tree w1 of
            (Inl x, w2) \<Rightarrow> (Inl x, w2)
          | (Inr destination, w2) \<Rightarrow>
             (case exec_lipo e source destination arm64Tree binding x64Tree w2 of
                (Inl x, w3) \<Rightarrow> (Inl x, w3)
              | (Inr t3, w3) \<Rightarrow> mergeBindings e x64Dir arm64Dir arm64Tree commonBindings t3 w3)))"

text \<open>Lines 146--148: the \<^verbatim>\<open>unpack\<close> option, a brace list of the unpacked files under
  \<open>x64Dir\<close>.\<close>

definition resolvedUnpack :: "string \<Rightarrow> string list \<Rightarrow> string list" where
  "resolvedUnpack x64Dir unpackedFiles = map (\<lambda>file. path_join x64Dir file) unpackedFiles"

definition unpackOption :: "string \<Rightarrow> string list \<Rightarrow> string" where
  "unpackOption x64Dir unpackedFiles =
     ''{'' @ join_with '','' (resolvedUnpack x64Dir unpackedFiles) @ ''}''"

text \<open>Lines 123--150: the body of the \<^verbatim>\<open>try\<close>.\<close>

definition tryBlock ::
  "env \<Rightarrow> options \<Rightarrow> string \<Rightarrow> string \<Rightarrow> string list \<Rightarrow> string list \<Rightarrow> string list \<Rightarrow> world
     \<Rightarrow> (error + unit) \<times> world" where
  "tryBlock e opts x64Dir arm64Dir unpackedFiles arm64Unique commonBindings w =
     (case extractAll e (x64AsarPath opts) x64Dir w of
        (Inl x, w1) \<Rightarrow> (Inl x, w1)
      | (Inr x64Tree, w1) \<Rightarrow>
     (case extractAll e (arm64AsarPath opts) arm64Dir w1 of
        (Inl x, w2) \<Rightarrow> (Inl x, w2)
      | (Inr arm64Tree, w2) \<Rightarrow>
     (case copyUnique e opts x64Dir arm64Dir arm64Tree arm64Unique x64Tree w2 of
        (Inl x, w3) \<Rightarrow> (Inl x, w3)
      | (Inr t3, w3) \<Rightarrow>
     (case mergeBindings e x64Dir arm64Dir arm64Tree commonBindings t3 w3 of
        (Inl x, w4) \<Rightarrow> (Inl x, w4)
      | (Inr t4, w4) \<Rightarrow>
          createPackageWithOptions e x64Dir t4 (outputAsarPath opts)
            (unpackOption x64Dir unpackedFiles) w4))))"

text \<open>Line 153, the \<^verbatim>\<open>finally\<close>: both removals are started before either is awaited;
  \<^verbatim>\<open>Promise.all\<close> rejects when one of them does (here with the first in the array).\<close>

definition finallyBlock :: "env \<Rightarrow> string \<Rightarrow> string \<Rightarrow> world \<Rightarrow> (error + unit) \<times> world" where
  "finallyBlock e x64Dir arm64Dir w =
     (case fs_remove e x64Dir w of
        (r1, w1) \<Rightarrow>
          (case fs_remove e arm64Dir w1 of
             (r2, w2) \<Rightarrow> ((case r1 of Inl x \<Rightarrow> Inl x | Inr _ \<Rightarrow> r2), w2)))"

text \<open>The whole function. An error thrown inside \<^verbatim>\<open>finally\<close> replaces the outcome of the
  \<^verbatim>\<open>try\<close>; otherwise the outcome of the \<^verbatim>\<open>try\<close> stands.\<close>

definition mergeASARs :: "env \<Rightarrow> options \<Rightarrow> world \<Rightarrow> (error + unit) \<times> world" where
  "mergeASARs e opts w =
     (case validate e opts of
        Inl x \<Rightarrow> (Inl x, w)
      | Inr (unpackedFiles, arm64Unique, commonBindings) \<Rightarrow>
     (case mkdtemp e (path_join (os_tmpdir e) ''x64-'') w of
        (Inl x, w1) \<Rightarrow> (Inl x, w1)
      | (Inr x64Dir, w1) \<Rightarrow>
     (case mkdtemp e (path_join (os_tmpdir e) ''arm64-'') w1 of
        (Inl x, w2) \<Rightarrow> (Inl x, w2)
      | (Inr arm64Dir, w2) \<Rightarrow>
     (case tryBlock e opts x64Dir arm64Dir unpackedFiles arm64Unique commonBindings w2 of
        (r, w3) \<Rightarrow>
          (case finallyBlock e x64Dir arm64Dir w3 of
             (Inl x, w4) \<Rightarrow> (Inl x, w4)
           | (Inr _, w4) \<Rightarrow> (r, w4))))))"

subsection \<open>Notions used in the properties\<close>

text \<open>The invocations of \<^verbatim>\<open>lipo\<close> in a log, as (source, destination) pairs.\<close>

fun lipoCalls :: "call list \<Rightarrow> (string \<times> string) list" where
  "lipoCalls [] = []"
| "lipoCalls (Lipo source destination # cs) = (source, destination) # lipoCalls cs"
| "lipoCalls (c # cs) = lipoCalls cs"

text \<open>The node \<open>extractAll\<close> writes for an entry of an archive.\<close>

definition entryNode :: "env \<Rightarrow> string \<Rightarrow> string \<Rightarrow> node option" where
  "entryNode e a file =
     (case asar_statFile e a file of
        None \<Rightarrow> None
      | Some st \<Rightarrow>
          if has_files st then Some DirNode
          else map_option FileNode (asar_extractFile e a file))"

text \<open>A listing in which no path is empty and every path's parent directory is listed
  too, as the listing of an archive is.\<close>

definition parents_listed :: "string set \<Rightarrow> bool" where
  "parents_listed S = (\<forall>q\<in>S. q \<noteq> [] \<and> (dirname q = [] \<or> dirname q \<in> S))"

text \<open>\<open>frame w w'\<close>: between the two worlds no archive was written, no temporary
  directory was created or removed and \<^verbatim>\<open>lipo\<close> was not invoked. \<open>keeps S t t'\<close>: the
  tree \<open>t'\<close> has every entry of \<open>t\<close>, unchanged outside \<open>S\<close>.\<close>

definition frame :: "world \<Rightarrow> world \<Rightarrow> bool" where
  "frame w w' = (packages w' = packages w \<and> tmpdirs w' = tmpdirs w
                 \<and> lipoCalls (events w') = lipoCalls (events w))"

definition keeps :: "string set \<Rightarrow> tree \<Rightarrow> tree \<Rightarrow> bool" where
  "keeps S t t' = ((\<forall>k. map_of t k \<noteq> None \<and> k \<notin> S \<longrightarrow> map_of t' k = map_of t k)
                   \<and> dom (map_of t) \<subseteq> dom (map_of t'))"

text \<open>Line 53 throws for a unique file unless the allow pattern is present and
  \<^verbatim>\<open>minimatch\<close> accepts the file: \<open>covered\<close> is the negation of that condition.
  \<open>uniqueFiles\<close> lists the files lines 83--94 pass to \<^verbatim>\<open>checkSingleArch\<close>, each with
  the archive it is passed with, in the order of the calls: the files of the x64 listing
  that are not in the arm64 listing, then the files of the arm64 listing that are not in
  the x64 listing.\<close>

definition covered :: "env \<Rightarrow> options \<Rightarrow> string \<Rightarrow> bool" where
  "covered e opts file =
     (case singleArchFiles opts of None \<Rightarrow> False | Some pat \<Rightarrow> minimatch e file pat)"

definition uniqueFiles :: "options \<Rightarrow> string list \<Rightarrow> string list \<Rightarrow> (string \<times> string) list" where
  "uniqueFiles opts x64Files arm64Files =
     map (\<lambda>file. (file, x64AsarPath opts)) (filter (\<lambda>file. file \<notin> set arm64Files) x64Files)
     @ map (\<lambda>file. (file, arm64AsarPath opts)) (filter (\<lambda>file. file \<notin> set x64Files) arm64Files)"

subsection \<open>A concrete scenario\<close>

text \<open>The scenario of the specification: the x64 archive holds \<^verbatim>\<open>a.txt\<close>, the directory
  \<^verbatim>\<open>bin\<close> and \<^verbatim>\<open>bin/native\<close>; the arm64 archive holds the same and \<^verbatim>\<open>b-only.txt\<close>.
  \<^verbatim>\<open>a.txt\<close> is the same on both sides; \<^verbatim>\<open>bin/native\<close> differs and starts with the bytes
  of \<^verbatim>\<open>0xfeedface\<close> on both sides. \<^verbatim>\<open>bin\<close> and \<^verbatim>\<open>bin/native\<close> are stored unpacked. The
  glob matcher of the scenario matches a path against itself only; no call fails.\<close>

definition scenario_listPackage :: "string \<Rightarrow> string list option" where
  "scenario_listPackage a =
     (if a = ''x64.asar'' then Some [''/a.txt'', ''/bin'', ''/bin/native'']
      else if a = ''arm64.asar'' then Some [''/a.txt'', ''/bin'', ''/bin/native'', ''/b-only.txt'']
      else None)"

definition scenario_statFile :: "string \<Rightarrow> string \<Rightarrow> stat option" where
  "scenario_statFile a file =
     (if a \<noteq> ''x64.asar'' \<and> a \<noteq> ''arm64.asar'' then None
      else if file = ''a.txt'' then Some \<lparr>has_files = False, unpacked = None\<rparr>
      else if file = ''bin'' then Some \<lparr>has_files = True, unpacked = Some True\<rparr>
      else if file = ''bin/native'' then Some \<lparr>has_files = False, unpacked = Some True\<rparr>
      else if file = ''b-only.txt'' \<and> a = ''arm64.asar''
        then Some \<lparr>has_files = False, unpacked = Some False\<rparr>
      else None)"

definition scenario_extractFile :: "string \<Rightarrow> string \<Rightarrow> buffer option" where
  "scenario_extractFile a file =
     (if a \<noteq> ''x64.asar'' \<and> a \<noteq> ''arm64.asar'' then None
      else if file = ''a.txt'' then Some [0x68, 0x65, 0x6c, 0x6c, 0x6f]
      else if file = ''bin/native''
        then Some [0xce, 0xfa, 0xed, 0xfe, if a = ''x64.asar'' then 0x07 else 0x0c]
      else if file = ''b-only.txt'' \<and> a = ''arm64.asar'' then Some [0x62]
      else None)"

definition scenario :: env where
  "scenario =
     \<lparr>asar_listPackage = scenario_listPackage,
      asar_statFile = scenario_statFile,
      asar_extractFile = scenario_extractFile,
      minimatch = (\<lambda>file pat. file = pat),
      os_tmpdir = ''/tmp'',
      fs_mkdtemp = (\<lambda>prefix. Some (prefix @ ''Ab12Cd'')),
      lipo_create = (\<lambda>s d. Some (d @ s)),
      fails = (\<lambda>evs c. False)\<rparr>"

definition scenario_options :: options where
  "scenario_options =
     \<lparr>x64AsarPath = ''x64.asar'', arm64AsarPath = ''arm64.asar'',
      outputAsarPath = ''out.asar'', singleArchFiles = Some ''b-only.txt''\<rparr>"

definition world0 :: world where
  "world0 = \<lparr>events = [], tmpdirs = [], packages = []\<rparr>"

text \<open>The same scenario, but \<^verbatim>\<open>bin\<close> is a file in the arm64 archive.\<close>

definition scenario_mixed :: env where
  "scenario_mixed =
     scenario\<lparr>asar_statFile := (\<lambda>a file.
        if a = ''arm64.asar'' \<and> file = ''bin'' then Some \<lparr>has_files = False, unpacked = None\<rparr>
        else scenario_statFile a file)\<rparr>"

text \<open>Variants of the scenario: \<^verbatim>\<open>a.txt\<close> differs between the archives, once with two
  bytes on each side, once with five bytes of text; and the call without an allow
  pattern.\<close>

definition scenario_short :: env where
  "scenario_short =
     scenario\<lparr>asar_extractFile := (\<lambda>a file.
        if file = ''a.txt'' then (if a = ''x64.asar'' then Some [0x68, 0x69] else Some [0x79, 0x6f])
        else scenario_extractFile a file)\<rparr>"

definition scenario_text :: env where
  "scenario_text =
     scenario\<lparr>asar_extractFile := (\<lambda>a file.
        if file = ''a.txt'' \<and> a = ''arm64.asar'' then Some [0x77, 0x6f, 0x72, 0x6c, 0x64]
        else scenario_extractFile a file)\<rparr>"

definition scenario_options_no_allow :: options where
  "scenario_options_no_allow = scenario_options\<lparr>singleArchFiles := None\<rparr>"

text \<open>The scenario in an environment where the extraction of the x64 archive fails
  and so does the removal of the x64 directory; and the world after both temporary
  directories have been created.\<close>

definition scenario_failing_cleanup :: env where
  "scenario_failing_cleanup =
     scenario\<lparr>fails := (\<lambda>evs c. c = ExtractAll ''x64.asar'' ''/tmp/x64-Ab12Cd''
                                \<or> c = Remove ''/tmp/x64-Ab12Cd'')\<rparr>"

definition world2 :: world where
  "world2 = \<lparr>events = [Mkdtemp ''/tmp/x64-'', Mkdtemp ''/tmp/arm64-''],
             tmpdirs = [''/tmp/x64-Ab12Cd'', ''/tmp/arm64-Ab12Cd''], packages = []\<rparr>"

text \<open>The scenario with text in place of the arm64 side of \<^verbatim>\<open>bin/native\<close>.\<close>

definition scenario_arm_text :: env where
  "scenario_arm_text =
     scenario\<lparr>asar_extractFile := (\<lambda>a file.
        if file = ''bin/native'' \<and> a = ''arm64.asar'' then Some [0x74, 0x65, 0x78, 0x74, 0x21]
        else scenario_extractFile a file)\<rparr>"

text \<open>The scenario where \<^verbatim>\<open>lipo\<close> exits with a nonzero status.\<close>

definition scenario_lipo_fails :: env where
  "scenario_lipo_fails = scenario\<lparr>lipo_create := (\<lambda>s d. None)\<rparr>"

text \<open>Two archives with one unique file each: the x64 archive holds \<^verbatim>\<open>a.txt\<close> and
  \<^verbatim>\<open>a-only.txt\<close>, the arm64 archive holds \<^verbatim>\<open>a.txt\<close> and \<^verbatim>\<open>b-only.txt\<close>.\<close>

definition scenario_two_unique :: env where
  "scenario_two_unique =
     scenario\<lparr>asar_listPackage := (\<lambda>a.
        if a = ''x64.asar'' then Some [''/a.txt'', ''/a-only.txt'']
        else if a = ''arm64.asar'' then Some [''/a.txt'', ''/b-only.txt'']
        else None),
      asar_statFile := (\<lambda>a file.
        if a = ''x64.asar'' \<and> file = ''a-only.txt'' then Some \<lparr>has_files = False, unpacked = None\<rparr>
        else scenario_statFile a file)\<rparr>"

text \<open>The scenario where \<^verbatim>\<open>a.txt\<close> is text that differs between the archives and the
  x64 side of \<^verbatim>\<open>bin/native\<close> has two bytes.\<close>

definition scenario_text_then_short :: env where
  "scenario_text_then_short =
     scenario_text\<lparr>asar_extractFile := (\<lambda>a file.
        if file = ''bin/native'' \<and> a = ''x64.asar'' then Some [0xce, 0xfa]
        else asar_extractFile scenario_text a file)\<rparr>"

section \<open>Properties\<close>

text \<open>Unfolding the model on the concrete scenario.\<close>

lemmas scenario_defs = scenario_def scenario_options_def scenario_listPackage_def
  scenario_statFile_def scenario_extractFile_def world0_def

lemmas validate_defs = validate_def listFiles_def listPackage_def js_set_def js_set_add_def
  toRelativePath_def statFile_def checkSingleArch_def isDirectory_def extractFile_def
  readUInt32LE_def MACHO_MAGIC_def

subsection \<open>What the loops before the temporary directories compute\<close>

lemma set_js_set_fold: "set (fold (\<lambda>x s. js_set_add s x) xs acc) = set xs \<union> set acc"
  by (induction xs arbitrary: acc) (auto simp: js_set_add_def)

lemma set_js_set: "set (js_set xs) = set xs"
  by (simp add: js_set_def set_js_set_fold)

lemma checkArm64Unique_Inr:
  "checkArm64Unique e opts xs as acc = Inr r \<Longrightarrow> r = acc @ filter (\<lambda>f. f \<notin> set xs) as"
proof (induction as arbitrary: acc)
  case Nil
  then show ?case by simp
next
  case (Cons a as)
  show ?case
  proof (cases "a \<notin> set xs")
    case True
    with Cons.prems have "checkArm64Unique e opts xs as (acc @ [a]) = Inr r"
      by (simp split: sum.splits)
    from Cons.IH [OF this] True show ?thesis by simp
  next
    case False
    with Cons.prems have "checkArm64Unique e opts xs as acc = Inr r" by simp
    from Cons.IH [OF this] False show ?thesis by simp
  qed
qed

lemma findCommonBindings_step:
  "findCommonBindings e opts as (x # xs) acc = Inr r \<Longrightarrow>
     (isDivergent e opts as x \<and> findCommonBindings e opts as xs (acc @ [x]) = Inr r) \<or>
     (\<not> isDivergent e opts as x \<and> findCommonBindings e opts as xs acc = Inr r \<and>
      (x \<in> set as \<longrightarrow> isCommonDirectory e opts as x \<or> isIdentical e opts as x))"
  by (auto simp: isDivergent_def isIdentical_def isCommonDirectory_def
           split: sum.splits bool.splits if_splits)

lemma findCommonBindings_Inr:
  "findCommonBindings e opts as xs acc = Inr r \<Longrightarrow>
     r = acc @ filter (isDivergent e opts as) xs \<and>
     (\<forall>f\<in>set xs. f \<in> set as \<longrightarrow>
        isCommonDirectory e opts as f \<or> isIdentical e opts as f \<or> isDivergent e opts as f)"
proof (induction xs arbitrary: acc)
  case Nil
  then show ?case by simp
next
  case (Cons x xs)
  from findCommonBindings_step [OF Cons.prems] show ?case
  proof
    assume h: "isDivergent e opts as x \<and> findCommonBindings e opts as xs (acc @ [x]) = Inr r"
    with Cons.IH [of "acc @ [x]"] show ?thesis by simp
  next
    assume h: "\<not> isDivergent e opts as x \<and> findCommonBindings e opts as xs acc = Inr r \<and>
      (x \<in> set as \<longrightarrow> isCommonDirectory e opts as x \<or> isIdentical e opts as x)"
    with Cons.IH [of acc] show ?thesis by simp
  qed
qed


lemma validate_Inr:
  "validate e opts = Inr (u, au, cb) \<Longrightarrow>
     \<exists>xs as u1. listFiles e (x64AsarPath opts) = Inr xs \<and> listFiles e (arm64AsarPath opts) = Inr as \<and>
       buildUnpacked e (x64AsarPath opts) xs [] = Inr u1 \<and>
       buildUnpacked e (arm64AsarPath opts) as u1 = Inr u \<and>
       checkX64Unique e opts as xs = Inr () \<and>
       checkArm64Unique e opts xs as [] = Inr au \<and>
       findCommonBindings e opts as xs [] = Inr cb"
  by (auto simp: validate_def split: sum.splits)

subsection \<open>The reconciliation sets partition the paths\<close>

text \<open>Claim C2. Whenever lines 60--116 complete, the paths unique to the x64 archive,
  the paths unique to the arm64 archive (\<open>arm64Unique\<close>), the identical common files
  and the divergent common files (\<open>commonBindings\<close>) are pairwise disjoint and disjoint
  from the common directories; with the common directories, the sets on the x64 side
  make up the x64 listing, those on the arm64 side make up the arm64 listing, and all
  of them together make up the union of the two listings.\<close>

theorem reconciliation_partition:
  assumes "listFiles e (x64AsarPath opts) = Inr x64Files"
      and "listFiles e (arm64AsarPath opts) = Inr arm64Files"
      and "validate e opts = Inr (unpackedFiles, arm64Unique, commonBindings)"
  shows "set (uniqueToA x64Files arm64Files) \<inter> set arm64Unique = {}
       \<and> set (uniqueToA x64Files arm64Files) \<inter> set (identicalCommon e opts x64Files arm64Files) = {}
       \<and> set (uniqueToA x64Files arm64Files) \<inter> set commonBindings = {}
       \<and> set arm64Unique \<inter> set (identicalCommon e opts x64Files arm64Files) = {}
       \<and> set arm64Unique \<inter> set commonBindings = {}
       \<and> set (identicalCommon e opts x64Files arm64Files) \<inter> set commonBindings = {}
       \<and> set (commonDirectories e opts x64Files arm64Files)
            \<inter> (set (uniqueToA x64Files arm64Files) \<union> set arm64Unique
               \<union> set (identicalCommon e opts x64Files arm64Files) \<union> set commonBindings) = {}
       \<and> set (uniqueToA x64Files arm64Files) \<union> set (identicalCommon e opts x64Files arm64Files)
            \<union> set commonBindings \<union> set (commonDirectories e opts x64Files arm64Files) = set x64Files
       \<and> set arm64Unique \<union> set (identicalCommon e opts x64Files arm64Files)
            \<union> set commonBindings \<union> set (commonDirectories e opts x64Files arm64Files) = set arm64Files
       \<and> set (uniqueToA x64Files arm64Files) \<union> set arm64Unique
            \<union> set (identicalCommon e opts x64Files arm64Files) \<union> set commonBindings
            \<union> set (commonDirectories e opts x64Files arm64Files) = set x64Files \<union> set arm64Files"
proof -
  from validate_Inr [OF assms(3)] assms(1,2)
  have au: "checkArm64Unique e opts x64Files arm64Files [] = Inr arm64Unique"
   and cb: "findCommonBindings e opts arm64Files x64Files [] = Inr commonBindings"
    by auto
  have 1: "arm64Unique = filter (\<lambda>f. f \<notin> set x64Files) arm64Files"
    using checkArm64Unique_Inr [OF au] by simp
  have 2: "commonBindings = filter (isDivergent e opts arm64Files) x64Files"
    using findCommonBindings_Inr [OF cb] by simp
  have 3: "\<forall>f\<in>set x64Files. f \<in> set arm64Files \<longrightarrow>
        isCommonDirectory e opts arm64Files f \<or> isIdentical e opts arm64Files f \<or> isDivergent e opts arm64Files f"
    using findCommonBindings_Inr [OF cb] by simp
  have 4: "\<And>f. \<not> (isIdentical e opts arm64Files f \<and> isDivergent e opts arm64Files f)"
    by (auto simp: isIdentical_def isDivergent_def split: sum.splits)
  have 5: "\<And>f. \<not> (isCommonDirectory e opts arm64Files f \<and> isDivergent e opts arm64Files f)"
    "\<And>f. \<not> (isCommonDirectory e opts arm64Files f \<and> isIdentical e opts arm64Files f)"
    by (auto simp: isIdentical_def isDivergent_def isCommonDirectory_def)
  have 6: "\<And>f. isCommonDirectory e opts arm64Files f \<or> isIdentical e opts arm64Files f \<or> isDivergent e opts arm64Files f
             \<Longrightarrow> f \<in> set arm64Files"
    by (auto simp: isIdentical_def isDivergent_def isCommonDirectory_def)
  show ?thesis
    unfolding 1 2 uniqueToA_def identicalCommon_def commonDirectories_def
    using 3 4 5 6 by auto
qed

theorem reconciliation_partition_witness:
  "set (uniqueToA [''a.txt'', ''bin'', ''bin/native''] [''a.txt'', ''bin'', ''bin/native'', ''b-only.txt''])
       \<inter> set [''b-only.txt''] = {}
   \<and> set (uniqueToA [''a.txt'', ''bin'', ''bin/native''] [''a.txt'', ''bin'', ''bin/native'', ''b-only.txt''])
       \<union> set (identicalCommon scenario scenario_options [''a.txt'', ''bin'', ''bin/native'']
              [''a.txt'', ''bin'', ''bin/native'', ''b-only.txt''])
       \<union> set [''bin/native'']
       \<union> set (commonDirectories scenario scenario_options [''a.txt'', ''bin'', ''bin/native'']
              [''a.txt'', ''bin'', ''bin/native'', ''b-only.txt''])
     = set [''a.txt'', ''bin'', ''bin/native'']
   \<and> set [''b-only.txt'']
       \<union> set (identicalCommon scenario scenario_options [''a.txt'', ''bin'', ''bin/native'']
              [''a.txt'', ''bin'', ''bin/native'', ''b-only.txt''])
       \<union> set [''bin/native'']
       \<union> set (commonDirectories scenario scenario_options [''a.txt'', ''bin'', ''bin/native'']
              [''a.txt'', ''bin'', ''bin/native'', ''b-only.txt''])
     = set [''a.txt'', ''bin'', ''bin/native'', ''b-only.txt'']"
proof -
  have 1: "listFiles scenario (x64AsarPath scenario_options) = Inr [''a.txt'', ''bin'', ''bin/native'']"
    by (simp add: validate_defs scenario_defs)
  have 2: "listFiles scenario (arm64AsarPath scenario_options)
             = Inr [''a.txt'', ''bin'', ''bin/native'', ''b-only.txt'']"
    by (simp add: validate_defs scenario_defs)
  have 3: "validate scenario scenario_options = Inr ([''bin/native''], [''b-only.txt''], [''bin/native''])"
    by (simp add: validate_defs scenario_defs)
  show ?thesis
    using reconciliation_partition [OF 1 2 3] by (elim conjE) (intro conjI; assumption)
qed


subsection \<open>The loops over the unique and the common files, step by step\<close>

lemma checkSingleArch_Inr:
  "checkSingleArch e a f al = Inr u \<longleftrightarrow> (\<exists>pat. al = Some pat \<and> minimatch e f pat)"
  by (auto simp: checkSingleArch_def split: option.splits)

lemma checkSingleArch_Inl:
  "checkSingleArch e a f al = Inl x \<longleftrightarrow>
     x = UnmatchedUniqueFile f a al \<and> (al = None \<or> (\<exists>pat. al = Some pat \<and> \<not> minimatch e f pat))"
  by (auto simp: checkSingleArch_def split: option.splits)

lemma checkX64Unique_append:
  "checkX64Unique e opts as (pre @ post) =
     (case checkX64Unique e opts as pre of Inl x \<Rightarrow> Inl x | Inr u \<Rightarrow> checkX64Unique e opts as post)"
  by (induction pre) (auto split: sum.splits)

lemma checkArm64Unique_append:
  "checkArm64Unique e opts xs (pre @ post) acc =
     (case checkArm64Unique e opts xs pre acc of
        Inl x \<Rightarrow> Inl x
      | Inr acc' \<Rightarrow> checkArm64Unique e opts xs post acc')"
  by (induction pre arbitrary: acc) (auto split: sum.splits)

lemma findCommonBindings_append:
  "findCommonBindings e opts as (pre @ post) acc =
     (case findCommonBindings e opts as pre acc of
        Inl x \<Rightarrow> Inl x
      | Inr acc' \<Rightarrow> findCommonBindings e opts as post acc')"
  by (induction pre arbitrary: acc) (auto split: sum.splits bool.splits)

lemma checkX64Unique_Inl:
  "checkX64Unique e opts as xs = Inl x \<Longrightarrow>
     \<exists>f\<in>set xs. f \<notin> set as \<and> x = UnmatchedUniqueFile f (x64AsarPath opts) (singleArchFiles opts) \<and>
       (singleArchFiles opts = None \<or> (\<exists>pat. singleArchFiles opts = Some pat \<and> \<not> minimatch e f pat))"
  by (induction xs) (auto simp: checkSingleArch_Inl split: if_splits sum.splits)

lemma checkArm64Unique_Inl:
  "checkArm64Unique e opts xs as acc = Inl x \<Longrightarrow>
     \<exists>f\<in>set as. f \<notin> set xs \<and> x = UnmatchedUniqueFile f (arm64AsarPath opts) (singleArchFiles opts) \<and>
       (singleArchFiles opts = None \<or> (\<exists>pat. singleArchFiles opts = Some pat \<and> \<not> minimatch e f pat))"
proof (induction as arbitrary: acc)
  case Nil
  then show ?case by simp
next
  case (Cons a as)
  show ?case
  proof (cases "a \<notin> set xs")
    case False
    with Cons.prems have "checkArm64Unique e opts xs as acc = Inl x" by simp
    from Cons.IH [OF this] show ?thesis by auto
  next
    case True
    show ?thesis
    proof (cases "checkSingleArch e (arm64AsarPath opts) a (singleArchFiles opts)")
      case (Inl y)
      with Cons.prems True have "x = y" by simp
      with Inl True show ?thesis by (auto simp: checkSingleArch_Inl)
    next
      case (Inr u)
      with Cons.prems True have "checkArm64Unique e opts xs as (acc @ [a]) = Inl x" by simp
      from Cons.IH [OF this] show ?thesis by auto
    qed
  qed
qed

lemma checkX64Unique_Inr:
  "(checkX64Unique e opts as xs = Inr u) \<longleftrightarrow>
     (\<forall>f\<in>set xs. f \<notin> set as \<longrightarrow> (\<exists>pat. singleArchFiles opts = Some pat \<and> minimatch e f pat))"
  by (induction xs) (auto simp: checkSingleArch_Inr checkSingleArch_Inl split: sum.splits)

lemma checkArm64Unique_ok:
  "\<forall>f\<in>set as. f \<notin> set xs \<longrightarrow> (\<exists>pat. singleArchFiles opts = Some pat \<and> minimatch e f pat) \<Longrightarrow>
     checkArm64Unique e opts xs as acc = Inr (acc @ filter (\<lambda>f. f \<notin> set xs) as)"
proof (induction as arbitrary: acc)
  case Nil
  then show ?case by simp
next
  case (Cons a as)
  then have ih: "\<And>acc. checkArm64Unique e opts xs as acc = Inr (acc @ filter (\<lambda>f. f \<notin> set xs) as)"
    by simp
  show ?case
  proof (cases "a \<notin> set xs")
    case True
    with Cons.prems obtain pat where "singleArchFiles opts = Some pat" "minimatch e a pat" by auto
    then have "checkSingleArch e (arm64AsarPath opts) a (singleArchFiles opts) = Inr ()"
      by (simp add: checkSingleArch_def)
    with True ih [of "acc @ [a]"] show ?thesis by simp
  next
    case False
    with ih [of acc] show ?thesis by simp
  qed
qed

lemma buildUnpacked_Inl:
  "buildUnpacked e a files acc = Inl x \<Longrightarrow> \<exists>f\<in>set files. x = Failed (StatFile a f)"
  by (induction files arbitrary: acc) (auto simp: statFile_def split: sum.splits option.splits if_splits)



lemma buildUnpacked_ok:
  "\<forall>f\<in>set files. asar_statFile e a f \<noteq> None \<Longrightarrow> \<exists>r. buildUnpacked e a files acc = Inr r"
  by (induction files arbitrary: acc) (auto simp: statFile_def split: option.splits)

lemma mergeASARs_validate_Inl:
  "validate e opts = Inl x \<Longrightarrow> mergeASARs e opts w = (Inl x, w)"
  by (simp add: mergeASARs_def)

lemma validate_eq:
  "listFiles e (x64AsarPath opts) = Inr x64Files \<Longrightarrow>
   listFiles e (arm64AsarPath opts) = Inr arm64Files \<Longrightarrow>
   buildUnpacked e (x64AsarPath opts) x64Files [] = Inr u1 \<Longrightarrow>
   buildUnpacked e (arm64AsarPath opts) arm64Files u1 = Inr u2 \<Longrightarrow>
   validate e opts =
     (case checkX64Unique e opts arm64Files x64Files of Inl x \<Rightarrow> Inl x | Inr u \<Rightarrow>
     (case checkArm64Unique e opts x64Files arm64Files [] of Inl x \<Rightarrow> Inl x | Inr arm64Unique \<Rightarrow>
     (case findCommonBindings e opts arm64Files x64Files [] of Inl x \<Rightarrow> Inl x | Inr commonBindings \<Rightarrow>
      Inr (u2, arm64Unique, commonBindings))))"
  by (simp add: validate_def)

lemma findCommonBindings_cong:
  assumes "asar_statFile e' (x64AsarPath opts) = asar_statFile e (x64AsarPath opts)"
      and "asar_extractFile e' = asar_extractFile e"
  shows "findCommonBindings e' opts arm64Files x64Files acc
           = findCommonBindings e opts arm64Files x64Files acc"
proof -
  have d: "\<And>f. isDirectory e' (x64AsarPath opts) f = isDirectory e (x64AsarPath opts) f"
    by (simp add: isDirectory_def statFile_def assms(1))
  have x: "\<And>a f. extractFile e' a f = extractFile e a f"
    by (simp add: extractFile_def assms(2))
  show ?thesis
    by (induction x64Files arbitrary: acc) (simp_all add: d x split: sum.splits bool.splits)
qed

subsection \<open>Directories are recognised on the x64 side only\<close>

text \<open>Claim C10. Whether a common path is skipped as a directory is read from the
  x64 archive alone: two environments that agree on the x64 archive's metadata (and on
  the contents) give the same \<open>commonBindings\<close>, the same identical common files and
  the same common directories, whatever the arm64 archive says about the kind of its
  entries. A common path that is a directory in the x64 archive is in neither
  \<open>identicalCommon\<close> nor \<open>commonBindings\<close>.\<close>

theorem directory_decided_by_x64_metadata:
  assumes "asar_statFile e' (x64AsarPath opts) = asar_statFile e (x64AsarPath opts)"
      and "asar_extractFile e' = asar_extractFile e"
  shows "findCommonBindings e' opts arm64Files x64Files acc
           = findCommonBindings e opts arm64Files x64Files acc
       \<and> identicalCommon e' opts x64Files arm64Files = identicalCommon e opts x64Files arm64Files
       \<and> commonDirectories e' opts x64Files arm64Files = commonDirectories e opts x64Files arm64Files
       \<and> (isDirectory e (x64AsarPath opts) file = Inr True \<longrightarrow>
            file \<notin> set (identicalCommon e opts x64Files arm64Files) \<and>
            (\<forall>commonBindings. findCommonBindings e opts arm64Files x64Files [] = Inr commonBindings
               \<longrightarrow> file \<notin> set commonBindings))"
proof -
  have d: "\<And>f. isDirectory e' (x64AsarPath opts) f = isDirectory e (x64AsarPath opts) f"
    by (simp add: isDirectory_def statFile_def assms(1))
  have x: "\<And>a f. extractFile e' a f = extractFile e a f"
    by (simp add: extractFile_def assms(2))
  have i: "isIdentical e' opts arm64Files = isIdentical e opts arm64Files"
    by (rule ext) (simp add: isIdentical_def d x split: sum.splits)
  have c: "isCommonDirectory e' opts arm64Files = isCommonDirectory e opts arm64Files"
    by (rule ext) (simp add: isCommonDirectory_def d)
  have n: "isDirectory e (x64AsarPath opts) file = Inr True \<Longrightarrow>
             \<not> isIdentical e opts arm64Files file \<and> \<not> isDivergent e opts arm64Files file"
    by (simp add: isIdentical_def isDivergent_def)
  have m: "\<And>cb. isDirectory e (x64AsarPath opts) file = Inr True \<Longrightarrow>
             findCommonBindings e opts arm64Files x64Files [] = Inr cb \<Longrightarrow> file \<notin> set cb"
    using findCommonBindings_Inr n by fastforce
  show ?thesis
    using findCommonBindings_cong [OF assms] i c n m
    by (simp add: identicalCommon_def commonDirectories_def)
qed

theorem directory_decided_by_x64_metadata_witness:
  "isDirectory scenario_mixed ''arm64.asar'' ''bin'' = Inr False
   \<and> isDirectory scenario ''x64.asar'' ''bin'' = Inr True
   \<and> findCommonBindings scenario_mixed scenario_options
        [''a.txt'', ''bin'', ''bin/native'', ''b-only.txt''] [''a.txt'', ''bin'', ''bin/native''] []
      = Inr [''bin/native'']
   \<and> ''bin'' \<notin> set (identicalCommon scenario scenario_options [''a.txt'', ''bin'', ''bin/native'']
                      [''a.txt'', ''bin'', ''bin/native'', ''b-only.txt''])"
proof -
  have 1: "asar_statFile scenario_mixed (x64AsarPath scenario_options)
             = asar_statFile scenario (x64AsarPath scenario_options)"
    by (rule ext) (simp add: scenario_mixed_def scenario_defs)
  have 2: "asar_extractFile scenario_mixed = asar_extractFile scenario"
    by (simp add: scenario_mixed_def)
  have 3: "isDirectory scenario (x64AsarPath scenario_options) ''bin'' = Inr True"
    by (simp add: validate_defs scenario_defs)
  have 4: "findCommonBindings scenario scenario_options
        [''a.txt'', ''bin'', ''bin/native'', ''b-only.txt''] [''a.txt'', ''bin'', ''bin/native''] []
      = Inr [''bin/native'']"
    by (simp add: validate_defs scenario_defs)
  have 5: "isDirectory scenario_mixed ''arm64.asar'' ''bin'' = Inr False"
    by (simp add: validate_defs scenario_mixed_def scenario_defs)
  from directory_decided_by_x64_metadata [OF 1 2, of "[''a.txt'', ''bin'', ''bin/native'', ''b-only.txt'']"
      "[''a.txt'', ''bin'', ''bin/native'']" "[]" "''bin''"] 3 4 5
  show ?thesis
    by (simp add: scenario_options_def)
qed

lemma checkArm64Unique_Inr_matched:
  "checkArm64Unique e opts xs as acc = Inr r \<Longrightarrow>
     \<forall>f\<in>set as. f \<notin> set xs \<longrightarrow> (\<exists>pat. singleArchFiles opts = Some pat \<and> minimatch e f pat)"
proof (induction as arbitrary: acc)
  case Nil
  then show ?case by simp
next
  case (Cons a as)
  show ?case
  proof (cases "a \<notin> set xs")
    case False
    with Cons.prems have "checkArm64Unique e opts xs as acc = Inr r" by simp
    from Cons.IH [OF this] False show ?thesis by simp
  next
    case True
    with Cons.prems obtain u where
      u: "checkSingleArch e (arm64AsarPath opts) a (singleArchFiles opts) = Inr u"
      and r: "checkArm64Unique e opts xs as (acc @ [a]) = Inr r"
      by (auto split: sum.splits)
    from Cons.IH [OF r] u show ?thesis
      by (simp add: checkSingleArch_Inr)
  qed
qed

lemma findCommonBindings_head:
  "(\<exists>err. findCommonBindings e opts as (x # xs) acc = Inl err \<and>
          (err = NonBinaryDivergence x \<or> err = RangeError \<or> (\<exists>c. err = Failed c)))
   \<or> (\<exists>acc'. findCommonBindings e opts as (x # xs) acc = findCommonBindings e opts as xs acc')"
  by (auto simp: isDirectory_def statFile_def extractFile_def readUInt32LE_def
           split: sum.splits bool.splits option.splits)

lemma findCommonBindings_short:
  assumes "file \<in> set as"
      and "isDirectory e (x64AsarPath opts) file = Inr False"
      and "extractFile e (x64AsarPath opts) file = Inr x64Content"
      and "extractFile e (arm64AsarPath opts) file = Inr arm64Content"
      and "x64Content \<noteq> arm64Content"
      and "length x64Content < 4"
  shows "file \<in> set xs \<Longrightarrow>
           \<exists>err. findCommonBindings e opts as xs acc = Inl err \<and> err \<noteq> NonBinaryDivergence file"
proof (induction xs arbitrary: acc)
  case Nil
  then show ?case by simp
next
  case (Cons x xs)
  show ?case
  proof (cases "x = file")
    case True
    with assms have "findCommonBindings e opts as (x # xs) acc = Inl RangeError"
      by (simp add: readUInt32LE_def)
    then show ?thesis by simp
  next
    case False
    with Cons.prems have mem: "file \<in> set xs" by simp
    from findCommonBindings_head [of e opts as x xs acc] show ?thesis
    proof
      assume "\<exists>err. findCommonBindings e opts as (x # xs) acc = Inl err \<and>
          (err = NonBinaryDivergence x \<or> err = RangeError \<or> (\<exists>c. err = Failed c))"
      with False show ?thesis by auto
    next
      assume "\<exists>acc'. findCommonBindings e opts as (x # xs) acc = findCommonBindings e opts as xs acc'"
      then obtain acc' where
        "findCommonBindings e opts as (x # xs) acc = findCommonBindings e opts as xs acc'" ..
      with Cons.IH [OF mem, of acc'] show ?thesis by simp
    qed
  qed
qed

lemma validate_Inl_cases:
  assumes "listFiles e (x64AsarPath opts) = Inr x64Files"
      and "listFiles e (arm64AsarPath opts) = Inr arm64Files"
      and "validate e opts = Inl err"
  shows "(\<exists>c. err = Failed c) \<or> (\<exists>f a p. err = UnmatchedUniqueFile f a p)
       \<or> findCommonBindings e opts arm64Files x64Files [] = Inl err"
  using assms(3) unfolding validate_def assms(1,2)
  by (auto split: sum.splits dest: buildUnpacked_Inl checkX64Unique_Inl checkArm64Unique_Inl)

lemmas no_allow_defs = scenario_options_no_allow_def

subsection \<open>The allow-list gate\<close>

lemma checkSingleArch_covered:
  "checkSingleArch e a file (singleArchFiles opts) =
     (if covered e opts file then Inr ()
      else Inl (UnmatchedUniqueFile file a (singleArchFiles opts)))"
  by (simp add: checkSingleArch_def covered_def split: option.splits)

lemma checkX64Unique_find:
  "checkX64Unique e opts arm64Files x64Files =
     (case find (\<lambda>file. \<not> covered e opts file) (filter (\<lambda>file. file \<notin> set arm64Files) x64Files) of
        None \<Rightarrow> Inr ()
      | Some file \<Rightarrow> Inl (UnmatchedUniqueFile file (x64AsarPath opts) (singleArchFiles opts)))"
  by (induction x64Files) (simp_all add: checkSingleArch_covered)

lemma checkArm64Unique_find:
  "checkArm64Unique e opts x64Files arm64Files acc =
     (case find (\<lambda>file. \<not> covered e opts file) (filter (\<lambda>file. file \<notin> set x64Files) arm64Files) of
        None \<Rightarrow> Inr (acc @ filter (\<lambda>file. file \<notin> set x64Files) arm64Files)
      | Some file \<Rightarrow> Inl (UnmatchedUniqueFile file (arm64AsarPath opts) (singleArchFiles opts)))"
  by (induction arm64Files arbitrary: acc)
     (simp_all add: checkSingleArch_covered split: option.splits)

lemma find_map_pair:
  "find (\<lambda>(file, a). P file) (map (\<lambda>file. (file, b)) xs) = map_option (\<lambda>file. (file, b)) (find P xs)"
  by (induction xs) simp_all

lemma find_append_case:
  "find P (xs @ ys) = (case find P xs of None \<Rightarrow> find P ys | Some x \<Rightarrow> Some x)"
  by (induction xs) simp_all

lemma find_uniqueFiles:
  "find (\<lambda>(file, a). \<not> covered e opts file) (uniqueFiles opts x64Files arm64Files) =
     (case find (\<lambda>file. \<not> covered e opts file) (filter (\<lambda>file. file \<notin> set arm64Files) x64Files) of
        Some file \<Rightarrow> Some (file, x64AsarPath opts)
      | None \<Rightarrow>
         map_option (\<lambda>file. (file, arm64AsarPath opts))
           (find (\<lambda>file. \<not> covered e opts file) (filter (\<lambda>file. file \<notin> set x64Files) arm64Files)))"
  by (simp add: uniqueFiles_def find_append_case find_map_pair split: option.splits)

lemma find_uniqueFiles_Some:
  assumes "file \<in> set x64Files \<and> file \<notin> set arm64Files
           \<or> file \<in> set arm64Files \<and> file \<notin> set x64Files"
      and "\<not> covered e opts file"
  shows "\<exists>f a. find (\<lambda>(file, a). \<not> covered e opts file) (uniqueFiles opts x64Files arm64Files) = Some (f, a)"
proof -
  from assms have "\<exists>p\<in>set (uniqueFiles opts x64Files arm64Files). (\<lambda>(file, a). \<not> covered e opts file) p"
    by (auto simp: uniqueFiles_def)
  then have "find (\<lambda>(file, a). \<not> covered e opts file) (uniqueFiles opts x64Files arm64Files) \<noteq> None"
    unfolding find_None_iff by blast
  then show ?thesis by auto
qed

text \<open>Claim C3, as amended. Take two archives that can be listed and whose entries can
  be stat'ed, and a path that is in one listing only and that the allow pattern does not
  cover (the pattern is absent, or \<^verbatim>\<open>minimatch\<close> with \<^verbatim>\<open>matchBase\<close> rejects the path).
  Then \<open>mergeASARs\<close> fails with \<open>UnmatchedUniqueFile\<close>, and the error names the first
  uncovered unique path in the order of the checks (the unique files of the x64 listing,
  then those of the arm64 listing), the archive that path is in and the pattern. The
  world is returned as it was: no temporary directory and no output archive was
  created.\<close>

theorem unmatched_unique_file:
  assumes "listFiles e (x64AsarPath opts) = Inr x64Files"
      and "listFiles e (arm64AsarPath opts) = Inr arm64Files"
      and "buildUnpacked e (x64AsarPath opts) x64Files [] = Inr u1"
      and "buildUnpacked e (arm64AsarPath opts) arm64Files u1 = Inr u2"
      and "file \<in> set x64Files \<and> file \<notin> set arm64Files
           \<or> file \<in> set arm64Files \<and> file \<notin> set x64Files"
      and "singleArchFiles opts = None
           \<or> (\<exists>pat. singleArchFiles opts = Some pat \<and> \<not> minimatch e file pat)"
  shows "\<exists>f a. find (\<lambda>(file, a). \<not> covered e opts file) (uniqueFiles opts x64Files arm64Files)
                 = Some (f, a)
              \<and> mergeASARs e opts w = (Inl (UnmatchedUniqueFile f a (singleArchFiles opts)), w)"
proof -
  from assms(6) have nc: "\<not> covered e opts file"
    by (auto simp: covered_def)
  from find_uniqueFiles_Some [OF assms(5) nc] obtain f a where
    fa: "find (\<lambda>(file, a). \<not> covered e opts file) (uniqueFiles opts x64Files arm64Files) = Some (f, a)"
    by blast
  have "validate e opts = Inl (UnmatchedUniqueFile f a (singleArchFiles opts))"
    using fa unfolding validate_eq [OF assms(1-4)] find_uniqueFiles
    by (simp add: checkX64Unique_find checkArm64Unique_find split: option.splits)
  then have "mergeASARs e opts w = (Inl (UnmatchedUniqueFile f a (singleArchFiles opts)), w)"
    by (rule mergeASARs_validate_Inl)
  with fa show ?thesis by blast
qed


theorem unmatched_unique_file_witness:
  "mergeASARs scenario_two_unique scenario_options world0
     = (Inl (UnmatchedUniqueFile ''a-only.txt'' ''x64.asar'' (Some ''b-only.txt'')), world0)
   \<and> packages world0 = [] \<and> tmpdirs world0 = [] \<and> events world0 = []"
proof -
  have 1: "listFiles scenario_two_unique (x64AsarPath scenario_options) = Inr [''a.txt'', ''a-only.txt'']"
    by (simp add: validate_defs scenario_two_unique_def scenario_defs)
  have 2: "listFiles scenario_two_unique (arm64AsarPath scenario_options) = Inr [''a.txt'', ''b-only.txt'']"
    by (simp add: validate_defs scenario_two_unique_def scenario_defs)
  have 3: "buildUnpacked scenario_two_unique (x64AsarPath scenario_options) [''a.txt'', ''a-only.txt''] []
             = Inr []"
    by (simp add: validate_defs scenario_two_unique_def scenario_defs)
  have 4: "buildUnpacked scenario_two_unique (arm64AsarPath scenario_options) [''a.txt'', ''b-only.txt''] []
             = Inr []"
    by (simp add: validate_defs scenario_two_unique_def scenario_defs)
  have 5: "''a-only.txt'' \<in> set [''a.txt'', ''a-only.txt''] \<and> ''a-only.txt'' \<notin> set [''a.txt'', ''b-only.txt'']
           \<or> ''a-only.txt'' \<in> set [''a.txt'', ''b-only.txt''] \<and> ''a-only.txt'' \<notin> set [''a.txt'', ''a-only.txt'']"
    by simp
  have 6: "singleArchFiles scenario_options = None
           \<or> (\<exists>pat. singleArchFiles scenario_options = Some pat
                   \<and> \<not> minimatch scenario_two_unique ''a-only.txt'' pat)"
    by (simp add: scenario_two_unique_def scenario_defs)
  have f: "find (\<lambda>(file, a). \<not> covered scenario_two_unique scenario_options file)
             (uniqueFiles scenario_options [''a.txt'', ''a-only.txt''] [''a.txt'', ''b-only.txt''])
           = Some (''a-only.txt'', ''x64.asar'')"
    by (simp add: uniqueFiles_def covered_def scenario_two_unique_def scenario_defs)
  have p: "singleArchFiles scenario_options = Some ''b-only.txt''"
    by (simp add: scenario_defs)
  from unmatched_unique_file [OF 1 2 3 4 5 6, of world0]
  have "mergeASARs scenario_two_unique scenario_options world0
     = (Inl (UnmatchedUniqueFile ''a-only.txt'' ''x64.asar'' (Some ''b-only.txt'')), world0)"
    unfolding f p by simp
  then show ?thesis
    by (simp add: world0_def)
qed

text \<open>The claim as stated fails for a unique path that is not the first one the loops
  reject: without an allow pattern, \<^verbatim>\<open>b-only.txt\<close> is in the arm64 archive only and is
  not covered, yet the error names \<^verbatim>\<open>a-only.txt\<close> of the x64 archive.\<close>

theorem unmatched_unique_file_names_first:
  "listFiles scenario_two_unique (x64AsarPath scenario_options_no_allow) = Inr [''a.txt'', ''a-only.txt'']
   \<and> listFiles scenario_two_unique (arm64AsarPath scenario_options_no_allow) = Inr [''a.txt'', ''b-only.txt'']
   \<and> singleArchFiles scenario_options_no_allow = None
   \<and> mergeASARs scenario_two_unique scenario_options_no_allow world0
       = (Inl (UnmatchedUniqueFile ''a-only.txt'' ''x64.asar'' None), world0)
   \<and> fst (mergeASARs scenario_two_unique scenario_options_no_allow world0)
       \<noteq> Inl (UnmatchedUniqueFile ''b-only.txt'' ''arm64.asar'' None)"
proof -
  have "validate scenario_two_unique scenario_options_no_allow
          = Inl (UnmatchedUniqueFile ''a-only.txt'' ''x64.asar'' None)"
    by (simp add: validate_defs scenario_two_unique_def no_allow_defs scenario_defs)
  from mergeASARs_validate_Inl [OF this, of world0] show ?thesis
    by (simp add: validate_defs scenario_two_unique_def no_allow_defs scenario_defs)
qed

subsection \<open>Non-binary divergence is found before the workspace exists\<close>

text \<open>Claim C4, as amended. Take an input that passes the allow-list gate and on which
  the loop over the common files reaches \<open>file\<close> (no earlier common file fails), a
  common file that differs between the archives and whose x64 content has at least
  four bytes that are not a Mach-O magic number. Then \<open>mergeASARs\<close> fails with
  \<open>NonBinaryDivergence file\<close>. This failure, like every failure of lines 60--116,
  returns the world as it was: no temporary directory was created and nothing was
  extracted, so there is nothing to clean up.\<close>

theorem non_binary_divergence_before_workspace:
  assumes "listFiles e (x64AsarPath opts) = Inr x64Files"
      and "listFiles e (arm64AsarPath opts) = Inr arm64Files"
      and "buildUnpacked e (x64AsarPath opts) x64Files [] = Inr u1"
      and "buildUnpacked e (arm64AsarPath opts) arm64Files u1 = Inr u2"
      and "checkX64Unique e opts arm64Files x64Files = Inr ()"
      and "checkArm64Unique e opts x64Files arm64Files [] = Inr arm64Unique"
      and "x64Files = pre @ file # post"
      and "findCommonBindings e opts arm64Files pre [] = Inr commonBindings"
      and "file \<in> set arm64Files"
      and "isDirectory e (x64AsarPath opts) file = Inr False"
      and "extractFile e (x64AsarPath opts) file = Inr x64Content"
      and "extractFile e (arm64AsarPath opts) file = Inr arm64Content"
      and "x64Content \<noteq> arm64Content"
      and "readUInt32LE x64Content 0 = Inr magic"
      and "magic \<notin> MACHO_MAGIC"
  shows "mergeASARs e opts w = (Inl (NonBinaryDivergence file), w)
       \<and> (\<forall>err. validate e opts = Inl err \<longrightarrow> mergeASARs e opts w = (Inl err, w))"
proof
  have "findCommonBindings e opts arm64Files (file # post) commonBindings
          = Inl (NonBinaryDivergence file)"
    using assms(9-15) by simp
  with assms(8) have "findCommonBindings e opts arm64Files x64Files []
          = Inl (NonBinaryDivergence file)"
    unfolding assms(7) by (simp add: findCommonBindings_append)
  with assms(5,6) have "validate e opts = Inl (NonBinaryDivergence file)"
    by (simp add: validate_eq [OF assms(1-4)])
  then show "mergeASARs e opts w = (Inl (NonBinaryDivergence file), w)"
    by (rule mergeASARs_validate_Inl)
next
  show "\<forall>err. validate e opts = Inl err \<longrightarrow> mergeASARs e opts w = (Inl err, w)"
    by (simp add: mergeASARs_validate_Inl)
qed

theorem non_binary_divergence_before_workspace_witness:
  "mergeASARs scenario_text scenario_options world0 = (Inl (NonBinaryDivergence ''a.txt''), world0)
   \<and> events world0 = [] \<and> tmpdirs world0 = []"
proof -
  have 1: "listFiles scenario_text (x64AsarPath scenario_options) = Inr [''a.txt'', ''bin'', ''bin/native'']"
    by (simp add: validate_defs scenario_text_def scenario_defs)
  have 2: "listFiles scenario_text (arm64AsarPath scenario_options)
             = Inr [''a.txt'', ''bin'', ''bin/native'', ''b-only.txt'']"
    by (simp add: validate_defs scenario_text_def scenario_defs)
  have 3: "buildUnpacked scenario_text (x64AsarPath scenario_options) [''a.txt'', ''bin'', ''bin/native''] []
             = Inr [''bin/native'']"
    by (simp add: validate_defs scenario_text_def scenario_defs)
  have 4: "buildUnpacked scenario_text (arm64AsarPath scenario_options)
             [''a.txt'', ''bin'', ''bin/native'', ''b-only.txt''] [''bin/native''] = Inr [''bin/native'']"
    by (simp add: validate_defs scenario_text_def scenario_defs)
  have 5: "checkX64Unique scenario_text scenario_options
             [''a.txt'', ''bin'', ''bin/native'', ''b-only.txt''] [''a.txt'', ''bin'', ''bin/native''] = Inr ()"
    by (simp add: validate_defs scenario_text_def scenario_defs)
  have 6: "checkArm64Unique scenario_text scenario_options [''a.txt'', ''bin'', ''bin/native'']
             [''a.txt'', ''bin'', ''bin/native'', ''b-only.txt''] [] = Inr [''b-only.txt'']"
    by (simp add: validate_defs scenario_text_def scenario_defs)
  have 7: "[''a.txt'', ''bin'', ''bin/native''] = [] @ ''a.txt'' # [''bin'', ''bin/native'']"
    by simp
  have 8: "findCommonBindings scenario_text scenario_options
             [''a.txt'', ''bin'', ''bin/native'', ''b-only.txt''] [] [] = Inr []"
    by simp
  have 9: "''a.txt'' \<in> set [''a.txt'', ''bin'', ''bin/native'', ''b-only.txt'']"
    by simp
  have 10: "isDirectory scenario_text (x64AsarPath scenario_options) ''a.txt'' = Inr False"
    by (simp add: validate_defs scenario_text_def scenario_defs)
  have 11: "extractFile scenario_text (x64AsarPath scenario_options) ''a.txt''
              = Inr [0x68, 0x65, 0x6c, 0x6c, 0x6f]"
    by (simp add: validate_defs scenario_text_def scenario_defs)
  have 12: "extractFile scenario_text (arm64AsarPath scenario_options) ''a.txt''
              = Inr [0x77, 0x6f, 0x72, 0x6c, 0x64]"
    by (simp add: validate_defs scenario_text_def scenario_defs)
  have 13: "[0x68, 0x65, 0x6c, 0x6c, 0x6f :: 8 word] \<noteq> [0x77, 0x6f, 0x72, 0x6c, 0x64]"
    by simp
  have 14: "readUInt32LE [0x68, 0x65, 0x6c, 0x6c, 0x6f] 0 = Inr 0x6c6c6568"
    by (simp add: readUInt32LE_def)
  have 15: "(0x6c6c6568 :: nat) \<notin> MACHO_MAGIC"
    by (simp add: MACHO_MAGIC_def)
  from non_binary_divergence_before_workspace [OF 1 2 3 4 5 6 7 8 9 10 11 12 13 14 15, of world0]
  show ?thesis
    by (simp add: world0_def)
qed

text \<open>The claim as stated fails where the allow-list gate comes first: with a
  divergent text file \<^verbatim>\<open>a.txt\<close> and no allow pattern, the call fails on the unique file
  \<^verbatim>\<open>b-only.txt\<close>, not with \<open>NonBinaryDivergence\<close>.\<close>

theorem non_binary_divergence_counterexample:
  "isDivergent scenario_text scenario_options_no_allow
     [''a.txt'', ''bin'', ''bin/native'', ''b-only.txt''] ''a.txt''
   \<and> readUInt32LE [0x68, 0x65, 0x6c, 0x6c, 0x6f] 0 = Inr 0x6c6c6568
   \<and> (0x6c6c6568 :: nat) \<notin> MACHO_MAGIC
   \<and> mergeASARs scenario_text scenario_options_no_allow world0
       = (Inl (UnmatchedUniqueFile ''b-only.txt'' ''arm64.asar'' None), world0)
   \<and> fst (mergeASARs scenario_text scenario_options_no_allow world0)
       \<noteq> Inl (NonBinaryDivergence ''a.txt'')"
proof -
  have "validate scenario_text scenario_options_no_allow
          = Inl (UnmatchedUniqueFile ''b-only.txt'' ''arm64.asar'' None)"
    by (simp add: validate_defs scenario_text_def no_allow_defs scenario_defs)
  from mergeASARs_validate_Inl [OF this, of world0] show ?thesis
    by (simp add: isDivergent_def validate_defs scenario_text_def no_allow_defs scenario_defs)
qed

subsection \<open>A divergent file shorter than four bytes\<close>

text \<open>Claim C9, as amended. For a common file that differs between the archives and
  whose x64 content has fewer than four bytes, the read of the magic number at line 112
  is out of range: \<open>readUInt32LE\<close> throws \<open>RangeError\<close>. \<open>mergeASARs\<close> then fails, never
  with \<open>NonBinaryDivergence\<close> for that file, and with the world as it was. The error is
  the \<open>RangeError\<close> whenever the loop over the common files reaches the file: the stat
  calls and the allow-list gate pass and no earlier common file fails.\<close>

theorem short_content_range_error:
  assumes "listFiles e (x64AsarPath opts) = Inr x64Files"
      and "listFiles e (arm64AsarPath opts) = Inr arm64Files"
      and "file \<in> set x64Files" and "file \<in> set arm64Files"
      and "isDirectory e (x64AsarPath opts) file = Inr False"
      and "extractFile e (x64AsarPath opts) file = Inr x64Content"
      and "extractFile e (arm64AsarPath opts) file = Inr arm64Content"
      and "x64Content \<noteq> arm64Content"
      and "length x64Content < 4"
  shows "readUInt32LE x64Content 0 = Inl RangeError
       \<and> (\<exists>err. mergeASARs e opts w = (Inl err, w) \<and> err \<noteq> NonBinaryDivergence file)
       \<and> (\<forall>pre post u1 u2 arm64Unique commonBindings.
             x64Files = pre @ file # post
             \<and> buildUnpacked e (x64AsarPath opts) x64Files [] = Inr u1
             \<and> buildUnpacked e (arm64AsarPath opts) arm64Files u1 = Inr u2
             \<and> checkX64Unique e opts arm64Files x64Files = Inr ()
             \<and> checkArm64Unique e opts x64Files arm64Files [] = Inr arm64Unique
             \<and> findCommonBindings e opts arm64Files pre [] = Inr commonBindings
             \<longrightarrow> mergeASARs e opts w = (Inl RangeError, w))"
proof (intro conjI allI impI)
  show "readUInt32LE x64Content 0 = Inl RangeError"
    using assms(9) by (simp add: readUInt32LE_def)
next
  from findCommonBindings_short [OF assms(4-9) assms(3), of "[]"]
  obtain err' where f: "findCommonBindings e opts arm64Files x64Files [] = Inl err'"
    and n: "err' \<noteq> NonBinaryDivergence file" by blast
  have "\<exists>err. validate e opts = Inl err"
    using f unfolding validate_def assms(1,2) by (simp split: sum.splits)
  then obtain err where v: "validate e opts = Inl err" ..
  from validate_Inl_cases [OF assms(1,2) v] f n have "err \<noteq> NonBinaryDivergence file"
    by auto
  with mergeASARs_validate_Inl [OF v]
  show "\<exists>err. mergeASARs e opts w = (Inl err, w) \<and> err \<noteq> NonBinaryDivergence file"
    by blast
next
  fix pre post u1 u2 arm64Unique commonBindings
  assume h: "x64Files = pre @ file # post
             \<and> buildUnpacked e (x64AsarPath opts) x64Files [] = Inr u1
             \<and> buildUnpacked e (arm64AsarPath opts) arm64Files u1 = Inr u2
             \<and> checkX64Unique e opts arm64Files x64Files = Inr ()
             \<and> checkArm64Unique e opts x64Files arm64Files [] = Inr arm64Unique
             \<and> findCommonBindings e opts arm64Files pre [] = Inr commonBindings"
  note hx = h [THEN conjunct1]
   and b1 = h [THEN conjunct2, THEN conjunct1]
   and b2 = h [THEN conjunct2, THEN conjunct2, THEN conjunct1]
   and g1 = h [THEN conjunct2, THEN conjunct2, THEN conjunct2, THEN conjunct1]
   and g2 = h [THEN conjunct2, THEN conjunct2, THEN conjunct2, THEN conjunct2, THEN conjunct1]
   and pr = h [THEN conjunct2, THEN conjunct2, THEN conjunct2, THEN conjunct2, THEN conjunct2]
  have "findCommonBindings e opts arm64Files (file # post) commonBindings = Inl RangeError"
    using assms(4-9) by (simp add: readUInt32LE_def)
  with pr have "findCommonBindings e opts arm64Files x64Files [] = Inl RangeError"
    unfolding hx by (simp add: findCommonBindings_append)
  with g1 g2 have "validate e opts = Inl RangeError"
    by (simp add: validate_eq [OF assms(1,2) b1 b2])
  then show "mergeASARs e opts w = (Inl RangeError, w)"
    by (rule mergeASARs_validate_Inl)
qed

theorem short_content_range_error_witness:
  "length [0x68, 0x69 :: 8 word] < 4
   \<and> readUInt32LE [0x68, 0x69] 0 = Inl RangeError
   \<and> mergeASARs scenario_short scenario_options world0 = (Inl RangeError, world0)"
proof -
  have 1: "listFiles scenario_short (x64AsarPath scenario_options) = Inr [''a.txt'', ''bin'', ''bin/native'']"
    by (simp add: validate_defs scenario_short_def scenario_defs)
  have 2: "listFiles scenario_short (arm64AsarPath scenario_options)
             = Inr [''a.txt'', ''bin'', ''bin/native'', ''b-only.txt'']"
    by (simp add: validate_defs scenario_short_def scenario_defs)
  have 3: "''a.txt'' \<in> set [''a.txt'', ''bin'', ''bin/native'']"
    and 4: "''a.txt'' \<in> set [''a.txt'', ''bin'', ''bin/native'', ''b-only.txt'']"
    by simp_all
  have 5: "isDirectory scenario_short (x64AsarPath scenario_options) ''a.txt'' = Inr False"
    by (simp add: validate_defs scenario_short_def scenario_defs)
  have 6: "extractFile scenario_short (x64AsarPath scenario_options) ''a.txt'' = Inr [0x68, 0x69]"
    by (simp add: validate_defs scenario_short_def scenario_defs)
  have 7: "extractFile scenario_short (arm64AsarPath scenario_options) ''a.txt'' = Inr [0x79, 0x6f]"
    by (simp add: validate_defs scenario_short_def scenario_defs)
  have 8: "[0x68, 0x69 :: 8 word] \<noteq> [0x79, 0x6f]"
    by simp
  have 9: "length [0x68, 0x69 :: 8 word] < 4"
    by simp
  have a: "[''a.txt'', ''bin'', ''bin/native''] = [] @ ''a.txt'' # [''bin'', ''bin/native'']"
    by simp
  have b: "buildUnpacked scenario_short (x64AsarPath scenario_options) [''a.txt'', ''bin'', ''bin/native''] []
             = Inr [''bin/native'']"
    by (simp add: validate_defs scenario_short_def scenario_defs)
  have c: "buildUnpacked scenario_short (arm64AsarPath scenario_options)
             [''a.txt'', ''bin'', ''bin/native'', ''b-only.txt''] [''bin/native''] = Inr [''bin/native'']"
    by (simp add: validate_defs scenario_short_def scenario_defs)
  have d: "checkX64Unique scenario_short scenario_options
             [''a.txt'', ''bin'', ''bin/native'', ''b-only.txt''] [''a.txt'', ''bin'', ''bin/native''] = Inr ()"
    by (simp add: validate_defs scenario_short_def scenario_defs)
  have f: "checkArm64Unique scenario_short scenario_options [''a.txt'', ''bin'', ''bin/native'']
             [''a.txt'', ''bin'', ''bin/native'', ''b-only.txt''] [] = Inr [''b-only.txt'']"
    by (simp add: validate_defs scenario_short_def scenario_defs)
  have g: "findCommonBindings scenario_short scenario_options
             [''a.txt'', ''bin'', ''bin/native'', ''b-only.txt''] [] [] = Inr []"
    by simp
  from short_content_range_error [OF 1 2 3 4 5 6 7 8 9, of world0] a b c d f g
  have "mergeASARs scenario_short scenario_options world0 = (Inl RangeError, world0)"
    by blast
  moreover from short_content_range_error [OF 1 2 3 4 5 6 7 8 9, of world0]
  have "readUInt32LE [0x68, 0x69] 0 = Inl RangeError"
    by blast
  ultimately show ?thesis
    using 9 by simp
qed

text \<open>The claim as stated fails where another check fails first. Without an allow
  pattern, the divergent two-byte \<^verbatim>\<open>a.txt\<close> is never read: the call fails on the unique
  file \<^verbatim>\<open>b-only.txt\<close>. And where the divergent text file \<^verbatim>\<open>a.txt\<close> precedes the
  divergent two-byte \<^verbatim>\<open>bin/native\<close>, the call fails with \<open>NonBinaryDivergence\<close> for
  \<^verbatim>\<open>a.txt\<close>.\<close>

theorem short_content_other_error:
  "isDivergent scenario_short scenario_options_no_allow
     [''a.txt'', ''bin'', ''bin/native'', ''b-only.txt''] ''a.txt''
   \<and> extractFile scenario_short (x64AsarPath scenario_options_no_allow) ''a.txt'' = Inr [0x68, 0x69]
   \<and> mergeASARs scenario_short scenario_options_no_allow world0
       = (Inl (UnmatchedUniqueFile ''b-only.txt'' ''arm64.asar'' None), world0)
   \<and> isDivergent scenario_text_then_short scenario_options
       [''a.txt'', ''bin'', ''bin/native'', ''b-only.txt''] ''bin/native''
   \<and> extractFile scenario_text_then_short (x64AsarPath scenario_options) ''bin/native'' = Inr [0xce, 0xfa]
   \<and> mergeASARs scenario_text_then_short scenario_options world0
       = (Inl (NonBinaryDivergence ''a.txt''), world0)"
proof -
  have a: "validate scenario_short scenario_options_no_allow
          = Inl (UnmatchedUniqueFile ''b-only.txt'' ''arm64.asar'' None)"
    by (simp add: validate_defs scenario_short_def no_allow_defs scenario_defs)
  have b: "validate scenario_text_then_short scenario_options = Inl (NonBinaryDivergence ''a.txt'')"
    by (simp add: validate_defs scenario_text_then_short_def scenario_text_def scenario_defs)
  have c: "isDivergent scenario_short scenario_options_no_allow
     [''a.txt'', ''bin'', ''bin/native'', ''b-only.txt''] ''a.txt''"
    by (simp add: isDivergent_def validate_defs scenario_short_def no_allow_defs scenario_defs)
  have d: "isDivergent scenario_text_then_short scenario_options
       [''a.txt'', ''bin'', ''bin/native'', ''b-only.txt''] ''bin/native''"
    by (simp add: isDivergent_def validate_defs scenario_text_then_short_def scenario_text_def scenario_defs)
  have f: "extractFile scenario_short (x64AsarPath scenario_options_no_allow) ''a.txt'' = Inr [0x68, 0x69]"
    by (simp add: validate_defs scenario_short_def no_allow_defs scenario_defs)
  have g: "extractFile scenario_text_then_short (x64AsarPath scenario_options) ''bin/native'' = Inr [0xce, 0xfa]"
    by (simp add: validate_defs scenario_text_then_short_def scenario_text_def scenario_defs)
  from mergeASARs_validate_Inl [OF a, of world0] mergeASARs_validate_Inl [OF b, of world0] c d f g
  show ?thesis by simp
qed

subsection \<open>The file system operations and the two loops of the \<^verbatim>\<open>try\<close> block\<close>

lemma lipoCalls_append: "lipoCalls (xs @ ys) = lipoCalls xs @ lipoCalls ys"
  by (induction xs rule: lipoCalls.induct) simp_all

lemma lipoCalls_logged:
  "lipoCalls (events (logged c w)) = lipoCalls (events w) @ lipoCalls [c]"
  by (simp add: logged_def lipoCalls_append del: lipoCalls.simps)

lemma logged_frame: "packages (logged c w) = packages w" "tmpdirs (logged c w) = tmpdirs w"
  by (simp_all add: logged_def)

lemma extractEntries_step:
  "extractEntries e a (f # fs) t =
     (case entryNode e a f of None \<Rightarrow> None | Some n \<Rightarrow> extractEntries e a fs (AList.update f n t))"
  by (simp add: entryNode_def split: option.splits)

lemma extractEntries_Some:
  "extractEntries e a fs t = Some t' \<Longrightarrow>
     map_of t' = (\<lambda>k. if k \<in> set fs then entryNode e a k else map_of t k)"
proof (induction fs arbitrary: t)
  case Nil
  then show ?case by simp
next
  case (Cons f fs)
  from Cons.prems obtain n where n: "entryNode e a f = Some n"
    and r: "extractEntries e a fs (AList.update f n t) = Some t'"
    by (auto simp: extractEntries_step simp del: extractEntries.simps split: option.splits)
  from Cons.IH [OF r] n show ?case
    by (auto simp: update_conv' fun_eq_iff)
qed

lemma extractEntries_ok:
  "\<forall>f\<in>set fs. entryNode e a f \<noteq> None \<Longrightarrow> \<exists>t'. extractEntries e a fs t = Some t'"
proof (induction fs arbitrary: t)
  case Nil
  then show ?case by simp
next
  case (Cons f fs)
  then obtain n where n: "entryNode e a f = Some n" by auto
  from Cons.IH [of "AList.update f n t"] Cons.prems n show ?case
    by (simp add: extractEntries_step del: extractEntries.simps)
qed

lemma mkdirp_tree_keep:
  "map_of t k \<noteq> None \<Longrightarrow> map_of (mkdirp_tree t p) k = map_of t k"
proof (induction t p rule: mkdirp_tree.induct)
  case (1 t p)
  show ?case
  proof (cases "p = [] \<or> map_of t p \<noteq> None")
    case True
    then show ?thesis by (simp add: mkdirp_tree.simps [of t p])
  next
    case False
    with 1 have "map_of (mkdirp_tree t (dirname p)) k = map_of t k" by simp
    moreover from False 1(2) have "k \<noteq> p" by auto
    ultimately show ?thesis using False
      by (simp add: mkdirp_tree.simps [of t p] update_conv')
  qed
qed

lemma mkdirp_tree_dom_mono: "dom (map_of t) \<subseteq> dom (map_of (mkdirp_tree t p))"
  using mkdirp_tree_keep [of t _ p] by (auto simp: dom_def)

lemma mkdirp_tree_has: "p \<noteq> [] \<Longrightarrow> p \<in> dom (map_of (mkdirp_tree t p))"
  by (cases "map_of t p \<noteq> None") (auto simp: mkdirp_tree.simps [of t p] update_conv')

lemma mkdirp_tree_dom_sub:
  "parents_listed S \<Longrightarrow> p = [] \<or> p \<in> S \<Longrightarrow>
     dom (map_of (mkdirp_tree t p)) \<subseteq> dom (map_of t) \<union> S"
proof (induction t p rule: mkdirp_tree.induct)
  case (1 t p)
  show ?case
  proof (cases "p = [] \<or> map_of t p \<noteq> None")
    case True
    then have "mkdirp_tree t p = t"
      by (subst mkdirp_tree.simps) simp
    then show ?thesis by simp
  next
    case False
    with 1(3) have p: "p \<in> S" by simp
    with 1(2) have "dirname p = [] \<or> dirname p \<in> S" by (simp add: parents_listed_def)
    from 1(1) [OF False 1(2) this]
    have ih: "dom (map_of (mkdirp_tree t (dirname p))) \<subseteq> dom (map_of t) \<union> S" .
    have "mkdirp_tree t p = AList.update p DirNode (mkdirp_tree t (dirname p))"
      using False by (subst mkdirp_tree.simps) simp
    then have "dom (map_of (mkdirp_tree t p)) = insert p (dom (map_of (mkdirp_tree t (dirname p))))"
      by (simp add: update_conv')
    with ih p show ?thesis
      by (simp add: subset_iff)
  qed
qed

lemma frame_refl: "frame w w"
  by (simp add: frame_def)

lemma frame_trans: "frame w w1 \<Longrightarrow> frame w1 w2 \<Longrightarrow> frame w w2"
  by (simp add: frame_def)

lemma frame_logged:
  "lipoCalls [c] = [] \<Longrightarrow> frame w (logged c w)"
  by (simp add: frame_def logged_frame lipoCalls_logged del: lipoCalls.simps)

lemma keeps_refl: "keeps S t t"
  by (simp add: keeps_def)

lemma keeps_trans: "keeps S t t1 \<Longrightarrow> keeps S t1 t2 \<Longrightarrow> keeps S t t2"
  unfolding keeps_def by (metis domIff subsetD subsetI)

lemma keeps_mono: "keeps S t t' \<Longrightarrow> S \<subseteq> S' \<Longrightarrow> keeps S' t t'"
  unfolding keeps_def by blast

lemma keeps_mkdirp: "keeps S t (mkdirp_tree t p)"
  by (simp add: keeps_def mkdirp_tree_keep mkdirp_tree_dom_mono)

lemma keeps_update: "p \<in> S \<Longrightarrow> keeps S t (AList.update p n t)"
  by (auto simp: keeps_def update_conv')

lemma fs_mkdirp_res:
  "fs_mkdirp e d p t w = (r, w') \<Longrightarrow>
     frame w w' \<and> (\<forall>t'. r = Inr t' \<longrightarrow> t' = mkdirp_tree t p)"
  by (auto simp: fs_mkdirp_def frame_logged split: if_splits)

lemma fs_copy_res:
  "fs_copy e sd src dd p t w = (r, w') \<Longrightarrow>
     frame w w' \<and> (\<forall>t'. r = Inr t' \<longrightarrow> (\<exists>n. map_of src p = Some n \<and> t' = AList.update p n t))"
  by (auto simp: fs_copy_def Let_def frame_logged split: if_splits option.splits)

lemma fs_realpath_res:
  "fs_realpath e d p t w = (r, w') \<Longrightarrow>
     frame w w' \<and> (\<forall>s. r = Inr s \<longrightarrow> s = path_join d p \<and> map_of t p \<noteq> None)"
  by (auto simp: fs_realpath_def Let_def frame_logged split: if_splits)

lemma exec_lipo_res:
  "exec_lipo e s d src p t w = (r, w') \<Longrightarrow>
     w' = logged (Lipo s d) w \<and>
     (\<forall>t'. r = Inr t' \<longrightarrow>
        (\<exists>a b m. map_of src p = Some (FileNode a) \<and> map_of t p = Some (FileNode b) \<and>
           lipo_create e a b = Some m \<and> t' = AList.update p (FileNode m) t))"
  by (auto simp: exec_lipo_def Let_def split: option.splits node.splits)

lemma extractAll_res:
  "extractAll e a d w = (r, w') \<Longrightarrow>
     frame w w' \<and>
     (\<forall>t. r = Inr t \<longrightarrow>
        (\<exists>l. asar_listPackage e a = Some l \<and> extractEntries e a (map toRelativePath l) [] = Some t))"
  by (auto simp: extractAll_def frame_logged split: if_splits option.splits)

lemma createPackage_res:
  "createPackageWithOptions e src t dest unpack w = (r, w') \<Longrightarrow>
     tmpdirs w' = tmpdirs w \<and> lipoCalls (events w') = lipoCalls (events w) \<and>
     (case r of
        Inl x \<Rightarrow> packages w' = packages w
      | Inr u \<Rightarrow> packages w' = AList.update dest (t, unpack) (packages w))"
  by (auto simp: createPackageWithOptions_def Let_def logged_def lipoCalls_append split: if_splits)

lemma fs_remove_res:
  "fs_remove e d w = (r, w') \<Longrightarrow>
     packages w' = packages w \<and> lipoCalls (events w') = lipoCalls (events w)
     \<and> events w' = events w @ [Remove d]
     \<and> r = (if fails e (events w) (Remove d) then Inl (Failed (Remove d)) else Inr ())"
  by (auto simp: fs_remove_def Let_def logged_def lipoCalls_append split: if_splits)

lemma mkdtemp_res:
  "mkdtemp e prefix w = (r, w') \<Longrightarrow>
     packages w' = packages w \<and> lipoCalls (events w') = lipoCalls (events w)
     \<and> (\<forall>d. r = Inr d \<longrightarrow> fs_mkdtemp e prefix = Some d)"
  by (auto simp: mkdtemp_def logged_def lipoCalls_append split: if_splits option.splits)

lemma copyUnique_Cons:
  assumes "copyUnique e opts d1 d2 ta (f # fs) t w = (r, w')"
  shows "(\<exists>x. r = Inl x \<and> frame w w')
       \<or> (\<exists>t1 w1. frame w w1 \<and> copyUnique e opts d1 d2 ta fs t1 w1 = (r, w') \<and>
             (isDirectory e (arm64AsarPath opts) f = Inr True \<and> t1 = mkdirp_tree t f
              \<or> isDirectory e (arm64AsarPath opts) f = Inr False \<and>
                 (\<exists>n. map_of ta f = Some n \<and> t1 = AList.update f n (mkdirp_tree t (dirname f)))))"
proof (cases "isDirectory e (arm64AsarPath opts) f")
  case (Inl x)
  with assms show ?thesis by (auto simp: frame_refl)
next
  case (Inr b)
  show ?thesis
  proof (cases b)
    case True
    obtain r1 w1 where m: "fs_mkdirp e d1 f t w = (r1, w1)" by (cases "fs_mkdirp e d1 f t w")
    note m' = fs_mkdirp_res [OF m]
    show ?thesis
    proof (cases r1)
      case (Inl x)
      with assms Inr True m m' show ?thesis by auto
    next
      case (Inr t1)
      with assms \<open>isDirectory e (arm64AsarPath opts) f = Inr b\<close> True m m' show ?thesis by auto
    qed
  next
    case False
    obtain r1 w1 where m: "fs_mkdirp e d1 (dirname f) t w = (r1, w1)"
      by (cases "fs_mkdirp e d1 (dirname f) t w")
    note m' = fs_mkdirp_res [OF m]
    show ?thesis
    proof (cases r1)
      case (Inl x)
      with assms Inr False m m' show ?thesis by auto
    next
      case r1: (Inr t1)
      obtain r2 w2 where c: "fs_copy e d2 ta d1 f t1 w1 = (r2, w2)"
        by (cases "fs_copy e d2 ta d1 f t1 w1")
      note c' = fs_copy_res [OF c]
      from m' c' have fr: "frame w w2" by (blast intro: frame_trans)
      show ?thesis
      proof (cases r2)
        case (Inl x)
        with assms Inr False m r1 c fr show ?thesis by auto
      next
        case (Inr t2)
        with assms \<open>isDirectory e (arm64AsarPath opts) f = Inr b\<close> False m m' r1 c c' fr
        show ?thesis by auto
      qed
    qed
  qed
qed

lemma copyUnique_frame:
  "copyUnique e opts d1 d2 ta fs t w = (r, w') \<Longrightarrow> frame w w'"
proof (induction fs arbitrary: t w)
  case Nil
  then show ?case by (simp add: frame_refl)
next
  case (Cons f fs)
  from copyUnique_Cons [OF Cons.prems] show ?case
    using Cons.IH by (blast intro: frame_trans)
qed

lemma copyUnique_keeps:
  "copyUnique e opts d1 d2 ta fs t w = (Inr t', w') \<Longrightarrow> keeps (set fs) t t'"
proof (induction fs arbitrary: t w)
  case Nil
  then show ?case by (simp add: keeps_refl)
next
  case (Cons f fs)
  from copyUnique_Cons [OF Cons.prems] obtain t1 w1 where
    r: "copyUnique e opts d1 d2 ta fs t1 w1 = (Inr t', w')"
    and s: "t1 = mkdirp_tree t f \<or> (\<exists>n. t1 = AList.update f n (mkdirp_tree t (dirname f)))"
    by auto
  have "keeps (set (f # fs)) t t1"
    using s by (auto intro: keeps_mkdirp keeps_trans [OF keeps_mkdirp keeps_update])
  moreover have "keeps (set (f # fs)) t1 t'"
    using Cons.IH [OF r] by (rule keeps_mono) auto
  ultimately show ?case by (rule keeps_trans)
qed

lemma copyUnique_dom_sub:
  "copyUnique e opts d1 d2 ta fs t w = (Inr t', w') \<Longrightarrow> parents_listed S \<Longrightarrow> set fs \<subseteq> S \<Longrightarrow>
     dom (map_of t') \<subseteq> dom (map_of t) \<union> S"
proof (induction fs arbitrary: t w)
  case Nil
  then show ?case by simp
next
  case (Cons f fs)
  from copyUnique_Cons [OF Cons.prems(1)] obtain t1 w1 where
    r: "copyUnique e opts d1 d2 ta fs t1 w1 = (Inr t', w')"
    and s: "t1 = mkdirp_tree t f \<or> (\<exists>n. t1 = AList.update f n (mkdirp_tree t (dirname f)))"
    by auto
  from Cons.prems have f: "f \<in> S" by simp
  with Cons.prems(2) have d: "dirname f = [] \<or> dirname f \<in> S"
    by (simp add: parents_listed_def)
  have "dom (map_of t1) \<subseteq> dom (map_of t) \<union> S"
  proof (rule disjE [OF s])
    assume "t1 = mkdirp_tree t f"
    with mkdirp_tree_dom_sub [OF Cons.prems(2), of f t] f show ?thesis by simp
  next
    assume "\<exists>n. t1 = AList.update f n (mkdirp_tree t (dirname f))"
    then have "dom (map_of t1) \<subseteq> insert f (dom (map_of (mkdirp_tree t (dirname f))))"
      by (auto simp: update_conv')
    moreover note mkdirp_tree_dom_sub [OF Cons.prems(2) d, of t]
    ultimately show ?thesis using f by (simp add: subset_iff) blast
  qed
  moreover from Cons.IH [OF r Cons.prems(2)] Cons.prems(3)
  have "dom (map_of t') \<subseteq> dom (map_of t1) \<union> S" by simp
  ultimately show ?case by blast
qed

lemma copyUnique_dom_has:
  "copyUnique e opts d1 d2 ta fs t w = (Inr t', w') \<Longrightarrow> [] \<notin> set fs \<Longrightarrow>
     set fs \<subseteq> dom (map_of t')"
proof (induction fs arbitrary: t w)
  case Nil
  then show ?case by simp
next
  case (Cons f fs)
  from copyUnique_Cons [OF Cons.prems(1)] obtain t1 w1 where
    r: "copyUnique e opts d1 d2 ta fs t1 w1 = (Inr t', w')"
    and s: "t1 = mkdirp_tree t f \<or> (\<exists>n. t1 = AList.update f n (mkdirp_tree t (dirname f)))"
    by auto
  from Cons.prems(2) have "f \<noteq> []" by auto
  then have "f \<in> dom (map_of t1)"
    using s mkdirp_tree_has [of f t] by (auto simp: update_conv')
  moreover from copyUnique_keeps [OF r] have "dom (map_of t1) \<subseteq> dom (map_of t')"
    by (simp add: keeps_def)
  moreover from Cons.IH [OF r] Cons.prems(2) have "set fs \<subseteq> dom (map_of t')" by simp
  ultimately show ?case by auto
qed

lemma copyUnique_ok:
  assumes "\<forall>evs c. \<not> fails e evs c"
  shows "\<forall>f\<in>set fs. asar_statFile e (arm64AsarPath opts) f \<noteq> None \<and> map_of ta f \<noteq> None \<Longrightarrow>
           \<exists>t' w'. copyUnique e opts d1 d2 ta fs t w = (Inr t', w')"
proof (induction fs arbitrary: t w)
  case Nil
  then show ?case by simp
next
  case (Cons f fs)
  then obtain st n where st: "asar_statFile e (arm64AsarPath opts) f = Some st"
    and n: "map_of ta f = Some n" by auto
  from Cons have ih: "\<And>t w. \<exists>t' w'. copyUnique e opts d1 d2 ta fs t w = (Inr t', w')" by simp
  show ?case
  proof (cases "has_files st")
    case True
    with st assms ih [of "mkdirp_tree t f" "logged (Mkdirp (path_join d1 f)) w"]
    show ?thesis by (simp add: isDirectory_def statFile_def fs_mkdirp_def)
  next
    case False
    with st n assms
      ih [of "AList.update f n (mkdirp_tree t (dirname f))"
             "logged (Copy (path_join d2 f) (path_join d1 f)) (logged (Mkdirp (path_join d1 (dirname f))) w)"]
    show ?thesis by (simp add: isDirectory_def statFile_def fs_mkdirp_def fs_copy_def)
  qed
qed

lemma mergeBindings_Cons:
  assumes "mergeBindings e d1 d2 ta (b # bs) t w = (r, w')"
  shows "(\<exists>x. r = Inl x \<and> packages w' = packages w \<and> tmpdirs w' = tmpdirs w \<and>
              (lipoCalls (events w') = lipoCalls (events w)
               \<or> lipoCalls (events w') = lipoCalls (events w) @ [(path_join d2 b, path_join d1 b)]))
       \<or> (\<exists>t1 w1 a c m.
             map_of ta b = Some (FileNode a) \<and> map_of t b = Some (FileNode c) \<and>
             lipo_create e a c = Some m \<and> t1 = AList.update b (FileNode m) t \<and>
             packages w1 = packages w \<and> tmpdirs w1 = tmpdirs w \<and>
             lipoCalls (events w1) = lipoCalls (events w) @ [(path_join d2 b, path_join d1 b)] \<and>
             mergeBindings e d1 d2 ta bs t1 w1 = (r, w'))"
proof -
  obtain r1 w1 where p1: "fs_realpath e d2 b ta w = (r1, w1)" by (cases "fs_realpath e d2 b ta w")
  note p1' = fs_realpath_res [OF p1]
  show ?thesis
  proof (cases r1)
    case (Inl x)
    with assms p1 p1' show ?thesis by (auto simp: frame_def)
  next
    case s: (Inr source)
    obtain r2 w2 where p2: "fs_realpath e d1 b t w1 = (r2, w2)" by (cases "fs_realpath e d1 b t w1")
    note p2' = fs_realpath_res [OF p2]
    from p1' p2' have fr: "frame w w2" by (blast intro: frame_trans)
    show ?thesis
    proof (cases r2)
      case (Inl x)
      with assms p1 s p2 fr show ?thesis by (auto simp: frame_def)
    next
      case d: (Inr destination)
      from p1' s have se: "source = path_join d2 b" by simp
      from p2' d have de: "destination = path_join d1 b" by simp
      obtain r3 w3 where p3: "exec_lipo e source destination ta b t w2 = (r3, w3)"
        by (cases "exec_lipo e source destination ta b t w2")
      note p3' = exec_lipo_res [OF p3]
      from p3' fr have l: "packages w3 = packages w" "tmpdirs w3 = tmpdirs w"
        "lipoCalls (events w3) = lipoCalls (events w) @ [(path_join d2 b, path_join d1 b)]"
        by (simp_all add: frame_def logged_frame lipoCalls_logged se de)
      show ?thesis
      proof (cases r3)
        case (Inl x)
        with assms p1 s p2 d p3 l show ?thesis by auto
      next
        case (Inr t3)
        with assms p1 s p2 d p3 have "mergeBindings e d1 d2 ta bs t3 w3 = (r, w')" by simp
        with p3' Inr l show ?thesis by blast
      qed
    qed
  qed
qed

lemma mergeBindings_lipo:
  "mergeBindings e d1 d2 ta bs t w = (r, w') \<Longrightarrow>
     packages w' = packages w \<and> tmpdirs w' = tmpdirs w \<and>
     (\<exists>ran. set ran \<subseteq> set bs \<and> (\<forall>t'. r = Inr t' \<longrightarrow> ran = bs) \<and>
        lipoCalls (events w')
          = lipoCalls (events w) @ map (\<lambda>b. (path_join d2 b, path_join d1 b)) ran)"
proof (induction bs arbitrary: t w)
  case Nil
  then show ?case by simp
next
  case (Cons b bs)
  from mergeBindings_Cons [OF Cons.prems] show ?case
  proof (elim disjE exE conjE)
    fix x
    assume "r = Inl x" "packages w' = packages w" "tmpdirs w' = tmpdirs w"
      "lipoCalls (events w') = lipoCalls (events w)"
    then show ?thesis
      by (intro conjI exI [of _ "[]"]) simp_all
  next
    fix x
    assume "r = Inl x" "packages w' = packages w" "tmpdirs w' = tmpdirs w"
      "lipoCalls (events w') = lipoCalls (events w) @ [(path_join d2 b, path_join d1 b)]"
    then show ?thesis
      by (intro conjI exI [of _ "[b]"]) simp_all
  next
    fix t1 w1 a c m
    assume w1: "packages w1 = packages w" "tmpdirs w1 = tmpdirs w"
      "lipoCalls (events w1) = lipoCalls (events w) @ [(path_join d2 b, path_join d1 b)]"
      and r: "mergeBindings e d1 d2 ta bs t1 w1 = (r, w')"
    from Cons.IH [OF r] obtain ran where
      ran: "set ran \<subseteq> set bs" "\<forall>t'. r = Inr t' \<longrightarrow> ran = bs"
        "lipoCalls (events w')
          = lipoCalls (events w1) @ map (\<lambda>b. (path_join d2 b, path_join d1 b)) ran"
      and p: "packages w' = packages w1" "tmpdirs w' = tmpdirs w1"
      by blast
    from ran p w1 show ?thesis
      by (intro conjI exI [of _ "b # ran"]) auto
  qed
qed

lemma mergeBindings_tree:
  "mergeBindings e d1 d2 ta bs t w = (Inr t', w') \<Longrightarrow>
     dom (map_of t') = dom (map_of t) \<and> (\<forall>k. k \<notin> set bs \<longrightarrow> map_of t' k = map_of t k)"
proof (induction bs arbitrary: t w)
  case Nil
  then show ?case by simp
next
  case (Cons b bs)
  from mergeBindings_Cons [OF Cons.prems] obtain t1 w1 c m where
    c: "map_of t b = Some (FileNode c)" and t1: "t1 = AList.update b (FileNode m) t"
    and r: "mergeBindings e d1 d2 ta bs t1 w1 = (Inr t', w')"
    by auto
  from c t1 have "dom (map_of t1) = dom (map_of t)" "\<forall>k. k \<noteq> b \<longrightarrow> map_of t1 k = map_of t k"
    by (auto simp: update_conv')
  with Cons.IH [OF r] show ?case by auto
qed

lemma mergeBindings_ok:
  assumes "\<forall>evs c. \<not> fails e evs c" and "\<forall>s d. lipo_create e s d \<noteq> None"
  shows "\<forall>b\<in>set bs. (\<exists>a. map_of ta b = Some (FileNode a)) \<and> (\<exists>c. map_of t b = Some (FileNode c)) \<Longrightarrow>
           \<exists>t' w'. mergeBindings e d1 d2 ta bs t w = (Inr t', w')"
proof (induction bs arbitrary: t w)
  case Nil
  then show ?case by simp
next
  case (Cons b bs)
  then obtain a c where a: "map_of ta b = Some (FileNode a)" and c: "map_of t b = Some (FileNode c)"
    by auto
  from assms(2) have "lipo_create e a c \<noteq> None" by blast
  then obtain m where m: "lipo_create e a c = Some m" by blast
  have "\<forall>b'\<in>set bs. (\<exists>a. map_of ta b' = Some (FileNode a))
          \<and> (\<exists>c. map_of (AList.update b (FileNode m) t) b' = Some (FileNode c))"
    using Cons.prems by (auto simp: update_conv')
  from Cons.IH [OF this] a c m assms(1) show ?case
    by (simp add: fs_realpath_def exec_lipo_def)
qed

text \<open>The run of the scenario, call by call.\<close>

lemmas effect_defs = mergeASARs_def tryBlock_def finallyBlock_def mkdtemp_def extractAll_def
  fs_mkdirp_def fs_copy_def fs_realpath_def exec_lipo_def createPackageWithOptions_def
  fs_remove_def logged_def path_join_def dirname_def unpackOption_def resolvedUnpack_def Let_def

lemma scenario_validate:
  "validate scenario scenario_options = Inr ([''bin/native''], [''b-only.txt''], [''bin/native''])"
  by (simp add: validate_defs scenario_defs)

lemma scenario_run:
  "mergeASARs scenario scenario_options world0 =
     (Inr (),
      \<lparr>events =
         [Mkdtemp ''/tmp/x64-'', Mkdtemp ''/tmp/arm64-'',
          ExtractAll ''x64.asar'' ''/tmp/x64-Ab12Cd'',
          ExtractAll ''arm64.asar'' ''/tmp/arm64-Ab12Cd'',
          Mkdirp ''/tmp/x64-Ab12Cd'',
          Copy ''/tmp/arm64-Ab12Cd/b-only.txt'' ''/tmp/x64-Ab12Cd/b-only.txt'',
          Realpath ''/tmp/arm64-Ab12Cd/bin/native'',
          Realpath ''/tmp/x64-Ab12Cd/bin/native'',
          Lipo ''/tmp/arm64-Ab12Cd/bin/native'' ''/tmp/x64-Ab12Cd/bin/native'',
          CreatePackage ''/tmp/x64-Ab12Cd'' ''out.asar'' ''{/tmp/x64-Ab12Cd/bin/native}'',
          Remove ''/tmp/x64-Ab12Cd'', Remove ''/tmp/arm64-Ab12Cd''],
       tmpdirs = [],
       packages =
         [(''out.asar'',
           [(''a.txt'', FileNode [0x68, 0x65, 0x6c, 0x6c, 0x6f]),
            (''bin'', DirNode),
            (''bin/native'', FileNode [0xce, 0xfa, 0xed, 0xfe, 0x07, 0xce, 0xfa, 0xed, 0xfe, 0x0c]),
            (''b-only.txt'', FileNode [0x62])],
           ''{/tmp/x64-Ab12Cd/bin/native}'')]\<rparr>)"
  unfolding mergeASARs_def scenario_validate
  by (simp add: effect_defs scenario_defs toRelativePath_def isDirectory_def statFile_def
        mkdirp_tree.simps)

lemma tryBlock_Inr:
  assumes "tryBlock e opts d1 d2 u au cb w = (Inr u0, w')"
  shows "\<exists>tx w1 ta w2 t3 w3 t4 w4.
           extractAll e (x64AsarPath opts) d1 w = (Inr tx, w1) \<and>
           extractAll e (arm64AsarPath opts) d2 w1 = (Inr ta, w2) \<and>
           copyUnique e opts d1 d2 ta au tx w2 = (Inr t3, w3) \<and>
           mergeBindings e d1 d2 ta cb t3 w3 = (Inr t4, w4) \<and>
           createPackageWithOptions e d1 t4 (outputAsarPath opts) (unpackOption d1 u) w4 = (Inr u0, w')"
  using assms unfolding tryBlock_def
  by (simp split: prod.splits sum.splits)

lemma tryBlock_lipo:
  assumes "tryBlock e opts d1 d2 u au cb w = (r, w')"
  shows "\<exists>ran. set ran \<subseteq> set cb \<and> (\<forall>u0. r = Inr u0 \<longrightarrow> ran = cb) \<and>
           lipoCalls (events w')
             = lipoCalls (events w) @ map (\<lambda>b. (path_join d2 b, path_join d1 b)) ran"
proof -
  obtain r1 w1 where 1: "extractAll e (x64AsarPath opts) d1 w = (r1, w1)"
    by (cases "extractAll e (x64AsarPath opts) d1 w")
  from extractAll_res [OF 1] have l1: "lipoCalls (events w1) = lipoCalls (events w)"
    by (simp add: frame_def)
  show ?thesis
  proof (cases r1)
    case (Inl x)
    with assms 1 l1 show ?thesis
      by (intro exI [of _ "[]"]) (auto simp: tryBlock_def)
  next
    case tx: (Inr tx)
    obtain r2 w2 where 2: "extractAll e (arm64AsarPath opts) d2 w1 = (r2, w2)"
      by (cases "extractAll e (arm64AsarPath opts) d2 w1")
    from extractAll_res [OF 2] l1 have l2: "lipoCalls (events w2) = lipoCalls (events w)"
      by (simp add: frame_def)
    show ?thesis
    proof (cases r2)
      case (Inl x)
      with assms 1 tx 2 l2 show ?thesis
        by (intro exI [of _ "[]"]) (auto simp: tryBlock_def)
    next
      case ta: (Inr ta)
      obtain r3 w3 where 3: "copyUnique e opts d1 d2 ta au tx w2 = (r3, w3)"
        by (cases "copyUnique e opts d1 d2 ta au tx w2")
      from copyUnique_frame [OF 3] l2 have l3: "lipoCalls (events w3) = lipoCalls (events w)"
        by (simp add: frame_def)
      show ?thesis
      proof (cases r3)
        case (Inl x)
        with assms 1 tx 2 ta 3 l3 show ?thesis
          by (intro exI [of _ "[]"]) (auto simp: tryBlock_def)
      next
        case t3: (Inr t3)
        obtain r4 w4 where 4: "mergeBindings e d1 d2 ta cb t3 w3 = (r4, w4)"
          by (cases "mergeBindings e d1 d2 ta cb t3 w3")
        from mergeBindings_lipo [OF 4] l3 obtain ran where
          ran: "set ran \<subseteq> set cb" "\<forall>t'. r4 = Inr t' \<longrightarrow> ran = cb"
            "lipoCalls (events w4)
               = lipoCalls (events w) @ map (\<lambda>b. (path_join d2 b, path_join d1 b)) ran"
          by auto
        show ?thesis
        proof (cases r4)
          case (Inl x)
          with assms 1 tx 2 ta 3 t3 4 ran show ?thesis
            by (intro exI [of _ ran]) (auto simp: tryBlock_def)
        next
          case t4: (Inr t4)
          with assms 1 tx 2 ta 3 t3 4 have
            5: "createPackageWithOptions e d1 t4 (outputAsarPath opts) (unpackOption d1 u) w4 = (r, w')"
            by (simp add: tryBlock_def)
          from createPackage_res [OF 5] ran t4 show ?thesis
            by (intro exI [of _ ran]) simp
        qed
      qed
    qed
  qed
qed

lemma finallyBlock_res:
  "finallyBlock e d1 d2 w = (r, w') \<Longrightarrow>
     packages w' = packages w \<and> lipoCalls (events w') = lipoCalls (events w)
     \<and> events w' = events w @ [Remove d1, Remove d2]
     \<and> r = (if fails e (events w) (Remove d1) then Inl (Failed (Remove d1))
            else if fails e (events w @ [Remove d1]) (Remove d2) then Inl (Failed (Remove d2))
            else Inr ())"
  by (auto simp: finallyBlock_def fs_remove_def Let_def logged_def lipoCalls_append
           split: if_splits)

lemma mergeASARs_eq:
  assumes "validate e opts = Inr (u, au, cb)"
      and "mkdtemp e (path_join (os_tmpdir e) ''x64-'') w = (Inr d1, w1)"
      and "mkdtemp e (path_join (os_tmpdir e) ''arm64-'') w1 = (Inr d2, w2)"
      and "tryBlock e opts d1 d2 u au cb w2 = (r, w3)"
      and "finallyBlock e d1 d2 w3 = (c, w4)"
  shows "mergeASARs e opts w = (case c of Inl x \<Rightarrow> (Inl x, w4) | Inr x \<Rightarrow> (r, w4))"
  using assms by (simp add: mergeASARs_def split: sum.splits)

lemma mergeASARs_cases:
  "(\<exists>x. validate e opts = Inl x \<and> mergeASARs e opts w = (Inl x, w))
   \<or> (\<exists>x w'. mergeASARs e opts w = (Inl x, w') \<and> packages w' = packages w
              \<and> lipoCalls (events w') = lipoCalls (events w))
   \<or> (\<exists>u au cb d1 w1 d2 w2 r w3 c w4.
         validate e opts = Inr (u, au, cb) \<and>
         mkdtemp e (path_join (os_tmpdir e) ''x64-'') w = (Inr d1, w1) \<and>
         mkdtemp e (path_join (os_tmpdir e) ''arm64-'') w1 = (Inr d2, w2) \<and>
         tryBlock e opts d1 d2 u au cb w2 = (r, w3) \<and>
         finallyBlock e d1 d2 w3 = (c, w4) \<and>
         mergeASARs e opts w = (case c of Inl x \<Rightarrow> (Inl x, w4) | Inr x \<Rightarrow> (r, w4)))"
proof (cases "validate e opts")
  case (Inl x)
  then show ?thesis by (simp add: mergeASARs_validate_Inl)
next
  case (Inr v)
  obtain u au cb where v: "v = (u, au, cb)" by (cases v)
  obtain r1 w1 where 1: "mkdtemp e (path_join (os_tmpdir e) ''x64-'') w = (r1, w1)"
    by (cases "mkdtemp e (path_join (os_tmpdir e) ''x64-'') w")
  show ?thesis
  proof (cases r1)
    case (Inl x)
    with Inr v 1 mkdtemp_res [OF 1] show ?thesis
      by (simp add: mergeASARs_def)
  next
    case d1: (Inr d1)
    obtain r2 w2 where 2: "mkdtemp e (path_join (os_tmpdir e) ''arm64-'') w1 = (r2, w2)"
      by (cases "mkdtemp e (path_join (os_tmpdir e) ''arm64-'') w1")
    show ?thesis
    proof (cases r2)
      case (Inl x)
      with Inr v 1 d1 2 mkdtemp_res [OF 1] mkdtemp_res [OF 2] show ?thesis
        by (simp add: mergeASARs_def)
    next
      case d2: (Inr d2)
      obtain r w3 where 3: "tryBlock e opts d1 d2 u au cb w2 = (r, w3)"
        by (cases "tryBlock e opts d1 d2 u au cb w2")
      obtain c w4 where 4: "finallyBlock e d1 d2 w3 = (c, w4)"
        by (cases "finallyBlock e d1 d2 w3")
      from Inr v 1 d1 2 d2 3 4 mergeASARs_eq [of e opts u au cb w d1 w1 d2 w2 r w3 c w4]
      show ?thesis by blast
    qed
  qed
qed

subsection \<open>The \<^verbatim>\<open>finally\<close> block\<close>

lemma failing_cleanup_validate:
  "validate scenario_failing_cleanup scenario_options
     = Inr ([''bin/native''], [''b-only.txt''], [''bin/native''])"
  by (simp add: validate_defs scenario_failing_cleanup_def scenario_defs)

lemma failing_cleanup_mkdtemp1:
  "mkdtemp scenario_failing_cleanup (path_join (os_tmpdir scenario_failing_cleanup) ''x64-'') world0
     = (Inr ''/tmp/x64-Ab12Cd'',
        \<lparr>events = [Mkdtemp ''/tmp/x64-''], tmpdirs = [''/tmp/x64-Ab12Cd''], packages = []\<rparr>)"
  by (simp add: effect_defs scenario_failing_cleanup_def scenario_defs)

lemma failing_cleanup_mkdtemp2:
  "mkdtemp scenario_failing_cleanup (path_join (os_tmpdir scenario_failing_cleanup) ''arm64-'')
     \<lparr>events = [Mkdtemp ''/tmp/x64-''], tmpdirs = [''/tmp/x64-Ab12Cd''], packages = []\<rparr>
     = (Inr ''/tmp/arm64-Ab12Cd'', world2)"
  by (simp add: effect_defs world2_def scenario_failing_cleanup_def scenario_defs)

lemma failing_cleanup_try:
  "tryBlock scenario_failing_cleanup scenario_options ''/tmp/x64-Ab12Cd'' ''/tmp/arm64-Ab12Cd''
     [''bin/native''] [''b-only.txt''] [''bin/native''] world2
     = (Inl (Failed (ExtractAll ''x64.asar'' ''/tmp/x64-Ab12Cd'')),
        world2\<lparr>events := events world2 @ [ExtractAll ''x64.asar'' ''/tmp/x64-Ab12Cd'']\<rparr>)"
  by (simp add: effect_defs world2_def scenario_failing_cleanup_def scenario_defs)

text \<open>Claim C7, as amended. On every path through the \<^verbatim>\<open>try\<close> block, that is once
  both temporary directories exist, whatever the block's outcome \<open>r\<close>: the removal of
  both directories is attempted right after the block (both \<open>Remove\<close> calls are in the
  log, the second also when the first fails), and when a removal fails \<open>mergeASARs\<close>
  ends with the error of the removal, which replaces the outcome of the block;
  otherwise the outcome of the block stands.\<close>

theorem cleanup_after_try:
  assumes "validate e opts = Inr (unpackedFiles, arm64Unique, commonBindings)"
      and "mkdtemp e (path_join (os_tmpdir e) ''x64-'') w = (Inr x64Dir, w1)"
      and "mkdtemp e (path_join (os_tmpdir e) ''arm64-'') w1 = (Inr arm64Dir, w2)"
      and "tryBlock e opts x64Dir arm64Dir unpackedFiles arm64Unique commonBindings w2 = (r, w3)"
  shows "events (snd (mergeASARs e opts w)) = events w3 @ [Remove x64Dir, Remove arm64Dir]
       \<and> fst (mergeASARs e opts w) =
           (if fails e (events w3) (Remove x64Dir) then Inl (Failed (Remove x64Dir))
            else if fails e (events w3 @ [Remove x64Dir]) (Remove arm64Dir)
              then Inl (Failed (Remove arm64Dir))
            else r)"
proof -
  obtain c w4 where f: "finallyBlock e x64Dir arm64Dir w3 = (c, w4)"
    by (cases "finallyBlock e x64Dir arm64Dir w3")
  from mergeASARs_eq [OF assms f] finallyBlock_res [OF f] show ?thesis
    by (auto split: sum.splits if_splits)
qed

theorem cleanup_after_try_witness:
  "events (snd (mergeASARs scenario_failing_cleanup scenario_options world0))
     = [Mkdtemp ''/tmp/x64-'', Mkdtemp ''/tmp/arm64-'', ExtractAll ''x64.asar'' ''/tmp/x64-Ab12Cd'',
        Remove ''/tmp/x64-Ab12Cd'', Remove ''/tmp/arm64-Ab12Cd'']
   \<and> fst (mergeASARs scenario_failing_cleanup scenario_options world0)
     = Inl (Failed (Remove ''/tmp/x64-Ab12Cd''))"
  using cleanup_after_try [OF failing_cleanup_validate failing_cleanup_mkdtemp1
      failing_cleanup_mkdtemp2 failing_cleanup_try]
  by (simp add: world2_def scenario_failing_cleanup_def)

text \<open>The claim as stated fails where both the block and the cleanup fail: the
  extraction error of the block is replaced by the error of the removal.\<close>

theorem cleanup_masks_original_error:
  "fst (tryBlock scenario_failing_cleanup scenario_options ''/tmp/x64-Ab12Cd'' ''/tmp/arm64-Ab12Cd''
          [''bin/native''] [''b-only.txt''] [''bin/native''] world2)
     = Inl (Failed (ExtractAll ''x64.asar'' ''/tmp/x64-Ab12Cd''))
   \<and> fst (mergeASARs scenario_failing_cleanup scenario_options world0)
     = Inl (Failed (Remove ''/tmp/x64-Ab12Cd''))
   \<and> fst (mergeASARs scenario_failing_cleanup scenario_options world0)
     \<noteq> Inl (Failed (ExtractAll ''x64.asar'' ''/tmp/x64-Ab12Cd''))"
proof -
  have "mergeASARs scenario_failing_cleanup scenario_options world0
     = (Inl (Failed (Remove ''/tmp/x64-Ab12Cd'')),
        \<lparr>events = [Mkdtemp ''/tmp/x64-'', Mkdtemp ''/tmp/arm64-'',
            ExtractAll ''x64.asar'' ''/tmp/x64-Ab12Cd'',
            Remove ''/tmp/x64-Ab12Cd'', Remove ''/tmp/arm64-Ab12Cd''],
          tmpdirs = [''/tmp/x64-Ab12Cd''], packages = []\<rparr>)"
    unfolding mergeASARs_def failing_cleanup_validate
    by (simp add: effect_defs scenario_failing_cleanup_def scenario_defs)
  then show ?thesis
    by (simp add: failing_cleanup_try)
qed

subsection \<open>A successful call, and the invocations of \<^verbatim>\<open>lipo\<close> in any call\<close>

lemma listFiles_Inr:
  "listFiles e a = Inr xs \<Longrightarrow>
     \<exists>l. asar_listPackage e a = Some l \<and> xs = js_set (map toRelativePath l)
         \<and> set xs = set (map toRelativePath l)"
  by (auto simp: listFiles_def listPackage_def set_js_set split: option.splits)

lemma entryNode_file:
  "isDirectory e a f = Inr False \<Longrightarrow> extractFile e a f = Inr c \<Longrightarrow>
     entryNode e a f = Some (FileNode c)"
  by (auto simp: isDirectory_def statFile_def extractFile_def entryNode_def split: option.splits)

lemma entryNode_stat: "entryNode e a f \<noteq> None \<Longrightarrow> asar_statFile e a f \<noteq> None"
  by (auto simp: entryNode_def split: option.splits)

lemma isDivergent_D:
  "isDivergent e opts as f \<Longrightarrow>
     f \<in> set as \<and> isDirectory e (x64AsarPath opts) f = Inr False \<and>
     (\<exists>a b. extractFile e (x64AsarPath opts) f = Inr a \<and>
            extractFile e (arm64AsarPath opts) f = Inr b \<and> a \<noteq> b)"
  by (auto simp: isDivergent_def split: sum.splits)

lemma isIdentical_D:
  "isIdentical e opts as f \<Longrightarrow>
     f \<in> set as \<and> isDirectory e (x64AsarPath opts) f = Inr False \<and>
     (\<exists>a. extractFile e (x64AsarPath opts) f = Inr a \<and>
          extractFile e (arm64AsarPath opts) f = Inr a) \<and> \<not> isDivergent e opts as f"
  by (auto simp: isIdentical_def isDivergent_def split: sum.splits)

lemma mergeASARs_success:
  assumes "mergeASARs e opts w = (Inr u0, w')"
  shows "\<exists>u au cb d1 d2 lx tx la ta t3 t4 wa wb wc.
           validate e opts = Inr (u, au, cb) \<and>
           fs_mkdtemp e (path_join (os_tmpdir e) ''x64-'') = Some d1 \<and>
           fs_mkdtemp e (path_join (os_tmpdir e) ''arm64-'') = Some d2 \<and>
           asar_listPackage e (x64AsarPath opts) = Some lx \<and>
           extractEntries e (x64AsarPath opts) (map toRelativePath lx) [] = Some tx \<and>
           asar_listPackage e (arm64AsarPath opts) = Some la \<and>
           extractEntries e (arm64AsarPath opts) (map toRelativePath la) [] = Some ta \<and>
           copyUnique e opts d1 d2 ta au tx wa = (Inr t3, wb) \<and>
           mergeBindings e d1 d2 ta cb t3 wb = (Inr t4, wc) \<and>
           map_of (packages w') (outputAsarPath opts) = Some (t4, unpackOption d1 u)"
proof -
  from mergeASARs_cases [of e opts w] assms obtain u au cb d1 w1 d2 w2 r w3 c w4 where
    v: "validate e opts = Inr (u, au, cb)"
    and m1: "mkdtemp e (path_join (os_tmpdir e) ''x64-'') w = (Inr d1, w1)"
    and m2: "mkdtemp e (path_join (os_tmpdir e) ''arm64-'') w1 = (Inr d2, w2)"
    and t: "tryBlock e opts d1 d2 u au cb w2 = (r, w3)"
    and f: "finallyBlock e d1 d2 w3 = (c, w4)"
    and m: "mergeASARs e opts w = (case c of Inl x \<Rightarrow> (Inl x, w4) | Inr x \<Rightarrow> (r, w4))"
    by auto
  from m assms have r: "r = Inr u0" and w4: "w' = w4"
    by (auto split: sum.splits)
  from tryBlock_Inr [OF t [unfolded r]] obtain tx wx ta wa t3 wb t4 wc where
    x: "extractAll e (x64AsarPath opts) d1 w2 = (Inr tx, wx)"
    and a: "extractAll e (arm64AsarPath opts) d2 wx = (Inr ta, wa)"
    and c: "copyUnique e opts d1 d2 ta au tx wa = (Inr t3, wb)"
    and b: "mergeBindings e d1 d2 ta cb t3 wb = (Inr t4, wc)"
    and p: "createPackageWithOptions e d1 t4 (outputAsarPath opts) (unpackOption d1 u) wc = (Inr u0, w3)"
    by blast
  from createPackage_res [OF p]
  have "packages w3 = AList.update (outputAsarPath opts) (t4, unpackOption d1 u) (packages wc)"
    by simp
  with finallyBlock_res [OF f] w4
  have pk: "map_of (packages w') (outputAsarPath opts) = Some (t4, unpackOption d1 u)"
    by (simp add: update_conv')
  from extractAll_res [OF x] obtain lx where
    lx: "asar_listPackage e (x64AsarPath opts) = Some lx"
        "extractEntries e (x64AsarPath opts) (map toRelativePath lx) [] = Some tx"
    by auto
  from extractAll_res [OF a] obtain la where
    la: "asar_listPackage e (arm64AsarPath opts) = Some la"
        "extractEntries e (arm64AsarPath opts) (map toRelativePath la) [] = Some ta"
    by auto
  from mkdtemp_res [OF m1] mkdtemp_res [OF m2]
  have "fs_mkdtemp e (path_join (os_tmpdir e) ''x64-'') = Some d1"
       "fs_mkdtemp e (path_join (os_tmpdir e) ''arm64-'') = Some d2"
    by simp_all
  with v lx la c b pk show ?thesis by blast
qed

lemma path_join_inject: "path_join d a = path_join d b \<Longrightarrow> a = b"
  by (auto simp: path_join_def split: if_splits)

lemma mergeASARs_lipo:
  "\<exists>ran d1 d2.
     lipoCalls (events (snd (mergeASARs e opts w)))
       = lipoCalls (events w) @ map (\<lambda>b. (path_join d2 b, path_join d1 b)) ran
     \<and> (ran \<noteq> [] \<longrightarrow>
          fs_mkdtemp e (path_join (os_tmpdir e) ''x64-'') = Some d1 \<and>
          fs_mkdtemp e (path_join (os_tmpdir e) ''arm64-'') = Some d2 \<and>
          (\<exists>u au cb. validate e opts = Inr (u, au, cb) \<and> set ran \<subseteq> set cb))
     \<and> (\<forall>u0 u au cb. fst (mergeASARs e opts w) = Inr u0 \<and> validate e opts = Inr (u, au, cb)
          \<longrightarrow> ran = cb)"
proof -
  from mergeASARs_cases [of e opts w] show ?thesis
  proof (elim disjE exE conjE)
    fix x
    assume "validate e opts = Inl x" "mergeASARs e opts w = (Inl x, w)"
    then show ?thesis by (intro exI [of _ "[]"]) simp
  next
    fix x w'
    assume "mergeASARs e opts w = (Inl x, w')" "lipoCalls (events w') = lipoCalls (events w)"
    then show ?thesis by (intro exI [of _ "[]"]) simp
  next
    fix u au cb d1 w1 d2 w2 r w3 c w4
    assume v: "validate e opts = Inr (u, au, cb)"
      and m1: "mkdtemp e (path_join (os_tmpdir e) ''x64-'') w = (Inr d1, w1)"
      and m2: "mkdtemp e (path_join (os_tmpdir e) ''arm64-'') w1 = (Inr d2, w2)"
      and t: "tryBlock e opts d1 d2 u au cb w2 = (r, w3)"
      and f: "finallyBlock e d1 d2 w3 = (c, w4)"
      and m: "mergeASARs e opts w = (case c of Inl x \<Rightarrow> (Inl x, w4) | Inr x \<Rightarrow> (r, w4))"
    from m have s: "snd (mergeASARs e opts w) = w4" by (simp split: sum.splits)
    from m have fs: "\<And>u0. fst (mergeASARs e opts w) = Inr u0 \<Longrightarrow> r = Inr u0"
      by (simp split: sum.splits)
    from tryBlock_lipo [OF t] obtain ran where
      ran: "set ran \<subseteq> set cb" "\<forall>u0. r = Inr u0 \<longrightarrow> ran = cb"
        "lipoCalls (events w3)
           = lipoCalls (events w2) @ map (\<lambda>b. (path_join d2 b, path_join d1 b)) ran"
      by blast
    from mkdtemp_res [OF m1] mkdtemp_res [OF m2] finallyBlock_res [OF f] ran(3)
    have "lipoCalls (events w4)
           = lipoCalls (events w) @ map (\<lambda>b. (path_join d2 b, path_join d1 b)) ran"
      and "fs_mkdtemp e (path_join (os_tmpdir e) ''x64-'') = Some d1"
      and "fs_mkdtemp e (path_join (os_tmpdir e) ''arm64-'') = Some d2"
      by (simp_all add: lipoCalls_append)
    with s v ran(1,2) fs show ?thesis
      by (intro exI [of _ ran] exI [of _ d1] exI [of _ d2]) auto
  qed
qed

subsection \<open>Identical common files\<close>

text \<open>Claim C6. Take a file of the x64 listing that is also in the arm64 listing, is
  not a directory and has the same bytes in both archives. In no call is \<^verbatim>\<open>lipo\<close>
  invoked on it: every invocation the call adds to the log has another source than the
  file's path under the arm64 directory and another destination than its path under
  the x64 directory. And when the call succeeds, the archive written at
  \<open>outputAsarPath\<close> holds the file with the bytes it has in the x64 archive.
  (Symbolic links, through which \<^verbatim>\<open>realpath\<close> could lead to another file, are outside
  the model.)\<close>

theorem identical_common_file_untouched:
  assumes "listFiles e (x64AsarPath opts) = Inr x64Files"
      and "listFiles e (arm64AsarPath opts) = Inr arm64Files"
      and "file \<in> set x64Files"
      and "isIdentical e opts arm64Files file"
  shows "(\<forall>source destination x64Dir arm64Dir.
            (source, destination) \<in> set (lipoCalls (events (snd (mergeASARs e opts w))))
            \<and> fs_mkdtemp e (path_join (os_tmpdir e) ''x64-'') = Some x64Dir
            \<and> fs_mkdtemp e (path_join (os_tmpdir e) ''arm64-'') = Some arm64Dir
            \<longrightarrow> (source, destination) \<in> set (lipoCalls (events w))
                \<or> source \<noteq> path_join arm64Dir file \<and> destination \<noteq> path_join x64Dir file)
       \<and> (\<forall>w'. mergeASARs e opts w = (Inr (), w') \<longrightarrow>
             (\<exists>tree unpack x64Content.
                map_of (packages w') (outputAsarPath opts) = Some (tree, unpack)
                \<and> extractFile e (x64AsarPath opts) file = Inr x64Content
                \<and> map_of tree file = Some (FileNode x64Content)))"
proof (intro conjI allI impI)
  fix source destination x64Dir arm64Dir
  assume h: "(source, destination) \<in> set (lipoCalls (events (snd (mergeASARs e opts w))))
            \<and> fs_mkdtemp e (path_join (os_tmpdir e) ''x64-'') = Some x64Dir
            \<and> fs_mkdtemp e (path_join (os_tmpdir e) ''arm64-'') = Some arm64Dir"
  from mergeASARs_lipo [of e opts w] obtain ran d1 d2 where
    l: "lipoCalls (events (snd (mergeASARs e opts w)))
          = lipoCalls (events w) @ map (\<lambda>b. (path_join d2 b, path_join d1 b)) ran"
    and r: "ran \<noteq> [] \<longrightarrow>
          fs_mkdtemp e (path_join (os_tmpdir e) ''x64-'') = Some d1 \<and>
          fs_mkdtemp e (path_join (os_tmpdir e) ''arm64-'') = Some d2 \<and>
          (\<exists>u au cb. validate e opts = Inr (u, au, cb) \<and> set ran \<subseteq> set cb)"
    by blast
  show "(source, destination) \<in> set (lipoCalls (events w))
        \<or> source \<noteq> path_join arm64Dir file \<and> destination \<noteq> path_join x64Dir file"
  proof (cases "(source, destination) \<in> set (lipoCalls (events w))")
    case True
    then show ?thesis by simp
  next
    case False
    with h l obtain b where b: "b \<in> set ran" "source = path_join d2 b" "destination = path_join d1 b"
      by auto
    then have "ran \<noteq> []" by auto
    with r h have d: "d1 = x64Dir" "d2 = arm64Dir"
      and "\<exists>u au cb. validate e opts = Inr (u, au, cb) \<and> set ran \<subseteq> set cb"
      by auto
    then obtain u au cb where v: "validate e opts = Inr (u, au, cb)" and s: "set ran \<subseteq> set cb"
      by blast
    from validate_Inr [OF v] assms(1,2)
    have "findCommonBindings e opts arm64Files x64Files [] = Inr cb" by auto
    from findCommonBindings_Inr [OF this] have "cb = filter (isDivergent e opts arm64Files) x64Files"
      by simp
    with s b(1) have "isDivergent e opts arm64Files b" by auto
    with isIdentical_D [OF assms(4)] have "b \<noteq> file" by auto
    with b d show ?thesis by (auto dest: path_join_inject)
  qed
next
  fix w'
  assume "mergeASARs e opts w = (Inr (), w')"
  from mergeASARs_success [OF this] obtain u au cb d1 d2 lx tx la ta t3 t4 wa wb wc where
    v: "validate e opts = Inr (u, au, cb)"
    and lx: "asar_listPackage e (x64AsarPath opts) = Some lx"
    and tx: "extractEntries e (x64AsarPath opts) (map toRelativePath lx) [] = Some tx"
    and c: "copyUnique e opts d1 d2 ta au tx wa = (Inr t3, wb)"
    and b: "mergeBindings e d1 d2 ta cb t3 wb = (Inr t4, wc)"
    and p: "map_of (packages w') (outputAsarPath opts) = Some (t4, unpackOption d1 u)"
    by blast
  from isIdentical_D [OF assms(4)] obtain x64Content where
    d: "isDirectory e (x64AsarPath opts) file = Inr False"
    and x: "extractFile e (x64AsarPath opts) file = Inr x64Content"
    and n: "\<not> isDivergent e opts arm64Files file"
    by blast
  from listFiles_Inr [OF assms(1)] lx assms(3) have "file \<in> set (map toRelativePath lx)"
    by auto
  with extractEntries_Some [OF tx] entryNode_file [OF d x]
  have 1: "map_of tx file = Some (FileNode x64Content)" by simp
  from validate_Inr [OF v] assms(1,2)
  have au: "checkArm64Unique e opts x64Files arm64Files [] = Inr au"
    and cb: "findCommonBindings e opts arm64Files x64Files [] = Inr cb" by auto
  from checkArm64Unique_Inr [OF au] assms(3) have "file \<notin> set au" by simp
  with copyUnique_keeps [OF c] 1 have 2: "map_of t3 file = Some (FileNode x64Content)"
    by (simp add: keeps_def)
  from findCommonBindings_Inr [OF cb] n have "file \<notin> set cb" by simp
  with mergeBindings_tree [OF b] 2 have "map_of t4 file = Some (FileNode x64Content)"
    by simp
  with p x show "\<exists>tree unpack x64Content.
                map_of (packages w') (outputAsarPath opts) = Some (tree, unpack)
                \<and> extractFile e (x64AsarPath opts) file = Inr x64Content
                \<and> map_of tree file = Some (FileNode x64Content)"
    by blast
qed

theorem identical_common_file_untouched_witness:
  "(''/tmp/arm64-Ab12Cd/a.txt'', ''/tmp/x64-Ab12Cd/a.txt'')
     \<notin> set (lipoCalls (events (snd (mergeASARs scenario scenario_options world0))))
   \<and> (\<exists>tree unpack.
        map_of (packages (snd (mergeASARs scenario scenario_options world0))) ''out.asar''
          = Some (tree, unpack)
        \<and> map_of tree ''a.txt'' = Some (FileNode [0x68, 0x65, 0x6c, 0x6c, 0x6f]))"
proof -
  have 1: "listFiles scenario (x64AsarPath scenario_options) = Inr [''a.txt'', ''bin'', ''bin/native'']"
    by (simp add: validate_defs scenario_defs)
  have 2: "listFiles scenario (arm64AsarPath scenario_options)
             = Inr [''a.txt'', ''bin'', ''bin/native'', ''b-only.txt'']"
    by (simp add: validate_defs scenario_defs)
  have 3: "''a.txt'' \<in> set [''a.txt'', ''bin'', ''bin/native'']"
    by simp
  have 4: "isIdentical scenario scenario_options [''a.txt'', ''bin'', ''bin/native'', ''b-only.txt'']
             ''a.txt''"
    by (simp add: isIdentical_def validate_defs scenario_defs)
  note t = identical_common_file_untouched [OF 1 2 3 4, of world0]
  have m: "fs_mkdtemp scenario (path_join (os_tmpdir scenario) ''x64-'') = Some ''/tmp/x64-Ab12Cd''"
    "fs_mkdtemp scenario (path_join (os_tmpdir scenario) ''arm64-'') = Some ''/tmp/arm64-Ab12Cd''"
    by (simp_all add: scenario_def path_join_def)
  have e: "lipoCalls (events world0) = []"
    by (simp add: world0_def)
  have j: "path_join ''/tmp/arm64-Ab12Cd'' ''a.txt'' = ''/tmp/arm64-Ab12Cd/a.txt''"
    by (simp add: path_join_def)
  from t [THEN conjunct1, THEN spec, THEN spec, THEN spec, THEN spec,
          of "''/tmp/arm64-Ab12Cd/a.txt''" "''/tmp/x64-Ab12Cd/a.txt''"
             "''/tmp/x64-Ab12Cd''" "''/tmp/arm64-Ab12Cd''"] m e j
  have a: "(''/tmp/arm64-Ab12Cd/a.txt'', ''/tmp/x64-Ab12Cd/a.txt'')
     \<notin> set (lipoCalls (events (snd (mergeASARs scenario scenario_options world0))))"
    by auto
  from t [THEN conjunct2, THEN spec, THEN mp, OF scenario_run]
  have "\<exists>tree unpack x64Content.
          map_of (packages (snd (mergeASARs scenario scenario_options world0)))
            (outputAsarPath scenario_options) = Some (tree, unpack)
          \<and> extractFile scenario (x64AsarPath scenario_options) ''a.txt'' = Inr x64Content
          \<and> map_of tree ''a.txt'' = Some (FileNode x64Content)"
    by (simp only: scenario_run snd_conv)
  then have b: "\<exists>tree unpack.
        map_of (packages (snd (mergeASARs scenario scenario_options world0))) ''out.asar''
          = Some (tree, unpack)
        \<and> map_of tree ''a.txt'' = Some (FileNode [0x68, 0x65, 0x6c, 0x6c, 0x6f])"
    by (auto simp: extractFile_def scenario_defs)
  from a b show ?thesis ..
qed

subsection \<open>The paths that stay unpacked\<close>




subsection \<open>The magic number is read on the x64 side\<close>

lemma findCommonBindings_step_magic:
  "findCommonBindings e opts as (x # xs) acc = Inr r \<Longrightarrow> isDivergent e opts as x \<Longrightarrow>
     \<exists>x64Content magic. extractFile e (x64AsarPath opts) x = Inr x64Content \<and>
        readUInt32LE x64Content 0 = Inr magic \<and> magic \<in> MACHO_MAGIC"
  by (auto simp: isDivergent_def split: sum.splits bool.splits if_splits)

lemma findCommonBindings_magic:
  "findCommonBindings e opts as xs acc = Inr r \<Longrightarrow> f \<in> set xs \<Longrightarrow> isDivergent e opts as f \<Longrightarrow>
     \<exists>x64Content magic. extractFile e (x64AsarPath opts) f = Inr x64Content \<and>
        readUInt32LE x64Content 0 = Inr magic \<and> magic \<in> MACHO_MAGIC"
proof (induction xs arbitrary: acc)
  case Nil
  then show ?case by simp
next
  case (Cons x xs)
  show ?case
  proof (cases "x = f")
    case True
    with findCommonBindings_step_magic [OF Cons.prems(1)] Cons.prems(3) show ?thesis by simp
  next
    case False
    with Cons.prems(2) have f: "f \<in> set xs" by simp
    from findCommonBindings_step [OF Cons.prems(1)] obtain acc' where
      "findCommonBindings e opts as xs acc' = Inr r" by blast
    from Cons.IH [OF this f Cons.prems(3)] show ?thesis .
  qed
qed

lemma findCommonBindings_arm64_content:
  assumes "asar_statFile e' (x64AsarPath opts) = asar_statFile e (x64AsarPath opts)"
      and "asar_extractFile e' (x64AsarPath opts) = asar_extractFile e (x64AsarPath opts)"
      and "\<forall>f. (asar_extractFile e' (arm64AsarPath opts) f = None)
                 = (asar_extractFile e (arm64AsarPath opts) f = None)
             \<and> (asar_extractFile e' (arm64AsarPath opts) f = asar_extractFile e (x64AsarPath opts) f)
                 = (asar_extractFile e (arm64AsarPath opts) f = asar_extractFile e (x64AsarPath opts) f)"
  shows "findCommonBindings e' opts as xs acc = findCommonBindings e opts as xs acc"
proof (induction xs arbitrary: acc)
  case Nil
  show ?case by simp
next
  case (Cons x xs)
  have d: "isDirectory e' (x64AsarPath opts) x = isDirectory e (x64AsarPath opts) x"
    by (simp add: isDirectory_def statFile_def assms(1))
  have a: "extractFile e' (x64AsarPath opts) x = extractFile e (x64AsarPath opts) x"
    by (simp add: extractFile_def assms(2))
  from assms(3) have
    n: "(asar_extractFile e' (arm64AsarPath opts) x = None)
          = (asar_extractFile e (arm64AsarPath opts) x = None)"
    and q: "(asar_extractFile e' (arm64AsarPath opts) x = asar_extractFile e (x64AsarPath opts) x)
          = (asar_extractFile e (arm64AsarPath opts) x = asar_extractFile e (x64AsarPath opts) x)"
    by simp_all
  show ?case
  proof (cases "x \<in> set as")
    case False
    then show ?thesis by (simp add: Cons.IH)
  next
    case True
    show ?thesis
    proof (cases "isDirectory e (x64AsarPath opts) x")
      case (Inl err)
      with True d show ?thesis by simp
    next
      case (Inr b)
      show ?thesis
      proof (cases b)
        case True
        with \<open>x \<in> set as\<close> Inr d show ?thesis by (simp add: Cons.IH)
      next
        case False
        show ?thesis
        proof (cases "asar_extractFile e (x64AsarPath opts) x")
          case None
          with \<open>x \<in> set as\<close> Inr False d a show ?thesis by (simp add: extractFile_def)
        next
          case (Some c)
          show ?thesis
          proof (cases "asar_extractFile e (arm64AsarPath opts) x")
            case None
            with n have "asar_extractFile e' (arm64AsarPath opts) x = None" by simp
            with None \<open>x \<in> set as\<close> Inr False d a Some show ?thesis
              by (simp add: extractFile_def)
          next
            case b: (Some b)
            with n obtain b' where b': "asar_extractFile e' (arm64AsarPath opts) x = Some b'"
              by auto
            from q b b' Some have "(b' = c) = (b = c)" by simp
            with b b' \<open>x \<in> set as\<close> Inr False d a Some assms(2) show ?thesis
              by (auto simp: extractFile_def Cons.IH split: sum.splits)
          qed
        qed
      qed
    qed
  qed
qed

lemma arm_text_validate:
  "validate scenario_arm_text scenario_options
     = Inr ([''bin/native''], [''b-only.txt''], [''bin/native''])"
  by (simp add: validate_defs scenario_arm_text_def scenario_defs)

lemma arm_text_run:
  "mergeASARs scenario_arm_text scenario_options world0 =
     (Inr (),
      \<lparr>events =
         [Mkdtemp ''/tmp/x64-'', Mkdtemp ''/tmp/arm64-'',
          ExtractAll ''x64.asar'' ''/tmp/x64-Ab12Cd'',
          ExtractAll ''arm64.asar'' ''/tmp/arm64-Ab12Cd'',
          Mkdirp ''/tmp/x64-Ab12Cd'',
          Copy ''/tmp/arm64-Ab12Cd/b-only.txt'' ''/tmp/x64-Ab12Cd/b-only.txt'',
          Realpath ''/tmp/arm64-Ab12Cd/bin/native'',
          Realpath ''/tmp/x64-Ab12Cd/bin/native'',
          Lipo ''/tmp/arm64-Ab12Cd/bin/native'' ''/tmp/x64-Ab12Cd/bin/native'',
          CreatePackage ''/tmp/x64-Ab12Cd'' ''out.asar'' ''{/tmp/x64-Ab12Cd/bin/native}'',
          Remove ''/tmp/x64-Ab12Cd'', Remove ''/tmp/arm64-Ab12Cd''],
       tmpdirs = [],
       packages =
         [(''out.asar'',
           [(''a.txt'', FileNode [0x68, 0x65, 0x6c, 0x6c, 0x6f]),
            (''bin'', DirNode),
            (''bin/native'', FileNode [0xce, 0xfa, 0xed, 0xfe, 0x07, 0x74, 0x65, 0x78, 0x74, 0x21]),
            (''b-only.txt'', FileNode [0x62])],
           ''{/tmp/x64-Ab12Cd/bin/native}'')]\<rparr>)"
  unfolding mergeASARs_def arm_text_validate
  by (simp add: effect_defs scenario_arm_text_def scenario_defs toRelativePath_def isDirectory_def
        statFile_def mkdirp_tree.simps)

text \<open>Claim C5, as amended. \<open>commonBindings\<close> holds exactly the divergent common files,
  and for each of them the first four bytes of the x64 content were read and found in
  \<open>MACHO_MAGIC\<close>; \<^verbatim>\<open>lipo\<close> is invoked for files of \<open>commonBindings\<close> only. The arm64
  content is only compared with the x64 content: any other arm64 contents that can be
  extracted for the same files and are equal to the x64 contents for the same files give
  the same \<open>commonBindings\<close>.\<close>

theorem magic_checked_on_x64_side:
  assumes "listFiles e (x64AsarPath opts) = Inr x64Files"
      and "listFiles e (arm64AsarPath opts) = Inr arm64Files"
      and "validate e opts = Inr (unpackedFiles, arm64Unique, commonBindings)"
  shows "commonBindings = filter (isDivergent e opts arm64Files) x64Files
       \<and> (\<forall>file\<in>set commonBindings.
             \<exists>x64Content magic. extractFile e (x64AsarPath opts) file = Inr x64Content
               \<and> readUInt32LE x64Content 0 = Inr magic \<and> magic \<in> MACHO_MAGIC)
       \<and> (\<forall>w source destination.
             (source, destination) \<in> set (lipoCalls (events (snd (mergeASARs e opts w))))
             \<longrightarrow> (source, destination) \<in> set (lipoCalls (events w))
                 \<or> (\<exists>file\<in>set commonBindings. \<exists>x64Dir arm64Dir.
                       source = path_join arm64Dir file \<and> destination = path_join x64Dir file))
       \<and> (\<forall>e'. asar_statFile e' (x64AsarPath opts) = asar_statFile e (x64AsarPath opts)
             \<and> asar_extractFile e' (x64AsarPath opts) = asar_extractFile e (x64AsarPath opts)
             \<and> (\<forall>f. (asar_extractFile e' (arm64AsarPath opts) f = None)
                       = (asar_extractFile e (arm64AsarPath opts) f = None)
                   \<and> (asar_extractFile e' (arm64AsarPath opts) f
                         = asar_extractFile e (x64AsarPath opts) f)
                       = (asar_extractFile e (arm64AsarPath opts) f
                         = asar_extractFile e (x64AsarPath opts) f))
             \<longrightarrow> findCommonBindings e' opts arm64Files x64Files [] = Inr commonBindings)"
proof (intro conjI ballI allI impI)
  from validate_Inr [OF assms(3)] assms(1,2)
  have cb: "findCommonBindings e opts arm64Files x64Files [] = Inr commonBindings" by auto
  from findCommonBindings_Inr [OF cb]
  show c: "commonBindings = filter (isDivergent e opts arm64Files) x64Files" by simp
  {
    fix p
    assume "p \<in> set commonBindings"
    with c have "p \<in> set x64Files" "isDivergent e opts arm64Files p" by auto
    from findCommonBindings_magic [OF cb this]
    show "\<exists>x64Content magic. extractFile e (x64AsarPath opts) p = Inr x64Content
               \<and> readUInt32LE x64Content 0 = Inr magic \<and> magic \<in> MACHO_MAGIC" .
  }
  {
    fix e' :: env
    assume h: "asar_statFile e' (x64AsarPath opts) = asar_statFile e (x64AsarPath opts)
             \<and> asar_extractFile e' (x64AsarPath opts) = asar_extractFile e (x64AsarPath opts)
             \<and> (\<forall>f. (asar_extractFile e' (arm64AsarPath opts) f = None)
                       = (asar_extractFile e (arm64AsarPath opts) f = None)
                   \<and> (asar_extractFile e' (arm64AsarPath opts) f
                         = asar_extractFile e (x64AsarPath opts) f)
                       = (asar_extractFile e (arm64AsarPath opts) f
                         = asar_extractFile e (x64AsarPath opts) f))"
    from findCommonBindings_arm64_content [OF h [THEN conjunct1] h [THEN conjunct2, THEN conjunct1]
        h [THEN conjunct2, THEN conjunct2]] cb
    show "findCommonBindings e' opts arm64Files x64Files [] = Inr commonBindings" by simp
  }
next
  fix w source destination
  assume h: "(source, destination) \<in> set (lipoCalls (events (snd (mergeASARs e opts w))))"
  from mergeASARs_lipo [of e opts w] obtain ran d1 d2 where
    l: "lipoCalls (events (snd (mergeASARs e opts w)))
          = lipoCalls (events w) @ map (\<lambda>b. (path_join d2 b, path_join d1 b)) ran"
    and r: "ran \<noteq> [] \<longrightarrow>
          fs_mkdtemp e (path_join (os_tmpdir e) ''x64-'') = Some d1 \<and>
          fs_mkdtemp e (path_join (os_tmpdir e) ''arm64-'') = Some d2 \<and>
          (\<exists>u au cb. validate e opts = Inr (u, au, cb) \<and> set ran \<subseteq> set cb)"
    by blast
  show "(source, destination) \<in> set (lipoCalls (events w))
         \<or> (\<exists>file\<in>set commonBindings. \<exists>x64Dir arm64Dir.
               source = path_join arm64Dir file \<and> destination = path_join x64Dir file)"
  proof (cases "(source, destination) \<in> set (lipoCalls (events w))")
    case True
    then show ?thesis by simp
  next
    case False
    with h l obtain b where b: "b \<in> set ran" "source = path_join d2 b" "destination = path_join d1 b"
      by auto
    then have "ran \<noteq> []" by auto
    with r assms(3) have "set ran \<subseteq> set commonBindings" by auto
    with b show ?thesis by blast
  qed
qed

theorem magic_checked_on_x64_side_witness:
  "[''bin/native'']
     = filter (isDivergent scenario_arm_text scenario_options
                 [''a.txt'', ''bin'', ''bin/native'', ''b-only.txt''])
         [''a.txt'', ''bin'', ''bin/native'']
   \<and> (\<exists>x64Content magic.
         extractFile scenario_arm_text (x64AsarPath scenario_options) ''bin/native'' = Inr x64Content
         \<and> readUInt32LE x64Content 0 = Inr magic \<and> magic \<in> MACHO_MAGIC)
   \<and> findCommonBindings scenario scenario_options
        [''a.txt'', ''bin'', ''bin/native'', ''b-only.txt''] [''a.txt'', ''bin'', ''bin/native''] []
       = Inr [''bin/native'']"
proof -
  have 1: "listFiles scenario_arm_text (x64AsarPath scenario_options)
             = Inr [''a.txt'', ''bin'', ''bin/native'']"
    by (simp add: validate_defs scenario_arm_text_def scenario_defs)
  have 2: "listFiles scenario_arm_text (arm64AsarPath scenario_options)
             = Inr [''a.txt'', ''bin'', ''bin/native'', ''b-only.txt'']"
    by (simp add: validate_defs scenario_arm_text_def scenario_defs)
  note t = magic_checked_on_x64_side [OF 1 2 arm_text_validate]
  have s: "asar_statFile scenario (x64AsarPath scenario_options)
             = asar_statFile scenario_arm_text (x64AsarPath scenario_options)"
    by (simp add: scenario_arm_text_def)
  have x: "asar_extractFile scenario (x64AsarPath scenario_options)
             = asar_extractFile scenario_arm_text (x64AsarPath scenario_options)"
    by (rule ext) (simp add: scenario_arm_text_def scenario_defs)
  have b: "\<forall>f. (asar_extractFile scenario (arm64AsarPath scenario_options) f = None)
                = (asar_extractFile scenario_arm_text (arm64AsarPath scenario_options) f = None)
            \<and> (asar_extractFile scenario (arm64AsarPath scenario_options) f
                  = asar_extractFile scenario_arm_text (x64AsarPath scenario_options) f)
                = (asar_extractFile scenario_arm_text (arm64AsarPath scenario_options) f
                  = asar_extractFile scenario_arm_text (x64AsarPath scenario_options) f)"
    by (simp add: scenario_arm_text_def scenario_defs)
  have m: "''bin/native'' \<in> set [''bin/native'']"
    by simp
  from t [THEN conjunct2, THEN conjunct2, THEN conjunct2, THEN spec, of scenario] s x b
  have c: "findCommonBindings scenario scenario_options
        [''a.txt'', ''bin'', ''bin/native'', ''b-only.txt''] [''a.txt'', ''bin'', ''bin/native''] []
       = Inr [''bin/native'']"
    by blast
  from t [THEN conjunct1] t [THEN conjunct2, THEN conjunct1, THEN bspec, OF m] c
  show ?thesis by blast
qed

text \<open>The claim as stated fails on the arm64 side: a divergent \<^verbatim>\<open>bin/native\<close> whose
  arm64 content is text is accepted, and \<^verbatim>\<open>lipo\<close> is invoked on it.\<close>

theorem arm64_side_not_checked:
  "isDivergent scenario_arm_text scenario_options
     [''a.txt'', ''bin'', ''bin/native'', ''b-only.txt''] ''bin/native''
   \<and> extractFile scenario_arm_text ''arm64.asar'' ''bin/native'' = Inr [0x74, 0x65, 0x78, 0x74, 0x21]
   \<and> readUInt32LE [0x74, 0x65, 0x78, 0x74, 0x21] 0 = Inr 0x74786574
   \<and> (0x74786574 :: nat) \<notin> MACHO_MAGIC
   \<and> validate scenario_arm_text scenario_options
       = Inr ([''bin/native''], [''b-only.txt''], [''bin/native''])
   \<and> fst (mergeASARs scenario_arm_text scenario_options world0) = Inr ()
   \<and> lipoCalls (events (snd (mergeASARs scenario_arm_text scenario_options world0)))
       = [(''/tmp/arm64-Ab12Cd/bin/native'', ''/tmp/x64-Ab12Cd/bin/native'')]"
  by (simp add: arm_text_run arm_text_validate)
     (simp add: isDivergent_def validate_defs scenario_arm_text_def scenario_defs)

subsection \<open>When the call succeeds\<close>

lemma entryNode_cases:
  "entryNode e a f \<noteq> None \<Longrightarrow>
     isDirectory e a f = Inr True \<and> entryNode e a f = Some DirNode
     \<or> (\<exists>c. isDirectory e a f = Inr False \<and> extractFile e a f = Inr c
             \<and> entryNode e a f = Some (FileNode c))"
  by (auto simp: entryNode_def isDirectory_def statFile_def extractFile_def split: option.splits)

lemma findCommonBindings_ok:
  "\<forall>f\<in>set xs. f \<in> set as \<longrightarrow>
      isDirectory e (x64AsarPath opts) f = Inr True
      \<or> isDirectory e (x64AsarPath opts) f = Inr False \<and>
        (\<exists>a b. extractFile e (x64AsarPath opts) f = Inr a \<and>
               extractFile e (arm64AsarPath opts) f = Inr b \<and>
               (a \<noteq> b \<longrightarrow> (\<exists>m. readUInt32LE a 0 = Inr m \<and> m \<in> MACHO_MAGIC))) \<Longrightarrow>
     \<exists>r. findCommonBindings e opts as xs acc = Inr r"
proof (induction xs arbitrary: acc)
  case Nil
  show ?case by simp
next
  case (Cons x xs)
  then have ih: "\<And>acc. \<exists>r. findCommonBindings e opts as xs acc = Inr r" by simp
  show ?case
  proof (cases "x \<in> set as")
    case False
    with ih [of acc] show ?thesis by simp
  next
    case True
    with Cons.prems have
      "isDirectory e (x64AsarPath opts) x = Inr True
      \<or> isDirectory e (x64AsarPath opts) x = Inr False \<and>
        (\<exists>a b. extractFile e (x64AsarPath opts) x = Inr a \<and>
               extractFile e (arm64AsarPath opts) x = Inr b \<and>
               (a \<noteq> b \<longrightarrow> (\<exists>m. readUInt32LE a 0 = Inr m \<and> m \<in> MACHO_MAGIC)))"
      by simp
    then show ?thesis
    proof
      assume "isDirectory e (x64AsarPath opts) x = Inr True"
      with True ih [of acc] show ?thesis by simp
    next
      assume "isDirectory e (x64AsarPath opts) x = Inr False \<and>
        (\<exists>a b. extractFile e (x64AsarPath opts) x = Inr a \<and>
               extractFile e (arm64AsarPath opts) x = Inr b \<and>
               (a \<noteq> b \<longrightarrow> (\<exists>m. readUInt32LE a 0 = Inr m \<and> m \<in> MACHO_MAGIC)))"
      then obtain a b where d: "isDirectory e (x64AsarPath opts) x = Inr False"
        and a: "extractFile e (x64AsarPath opts) x = Inr a"
        and b: "extractFile e (arm64AsarPath opts) x = Inr b"
        and m: "a \<noteq> b \<longrightarrow> (\<exists>m. readUInt32LE a 0 = Inr m \<and> m \<in> MACHO_MAGIC)"
        by blast
      show ?thesis
      proof (cases "a = b")
        case True
        with \<open>x \<in> set as\<close> d a b ih [of acc] show ?thesis by simp
      next
        case False
        with m obtain mg where "readUInt32LE a 0 = Inr mg" "mg \<in> MACHO_MAGIC" by blast
        with False \<open>x \<in> set as\<close> d a b ih [of "acc @ [x]"] show ?thesis by simp
      qed
    qed
  qed
qed

lemma lipo_fails_validate:
  "validate scenario_lipo_fails scenario_options
     = Inr ([''bin/native''], [''b-only.txt''], [''bin/native''])"
  by (simp add: validate_defs scenario_lipo_fails_def scenario_defs)

text \<open>Claim C1, as amended. Take two archives that can be listed and read (every listed
  entry has metadata, every listed file has content), in which a common path is a
  directory in both or in neither and the arm64 listing holds the parent directory of
  each of its paths. If every unique path matches the allow pattern, every divergent
  common file starts with a recognised magic number on the x64 side, and no collaborator
  call fails (the two temporary directories are created, no file-system call throws,
  \<^verbatim>\<open>lipo\<close> exits with status zero), then \<open>mergeASARs\<close> returns without an error and
  the archive written at \<open>outputAsarPath\<close> has as its entries the paths of the x64
  listing and the paths unique to the arm64 listing.\<close>

theorem merge_succeeds:
  assumes lx: "listFiles e (x64AsarPath opts) = Inr x64Files"
      and la: "listFiles e (arm64AsarPath opts) = Inr arm64Files"
      and rx: "\<forall>f\<in>set x64Files. entryNode e (x64AsarPath opts) f \<noteq> None"
      and ra: "\<forall>f\<in>set arm64Files. entryNode e (arm64AsarPath opts) f \<noteq> None"
      and kinds: "\<forall>f\<in>set x64Files \<inter> set arm64Files.
                    isDirectory e (arm64AsarPath opts) f = isDirectory e (x64AsarPath opts) f"
      and pl: "parents_listed (set arm64Files)"
      and allow: "\<forall>f\<in>(set x64Files - set arm64Files) \<union> (set arm64Files - set x64Files).
                    \<exists>pat. singleArchFiles opts = Some pat \<and> minimatch e f pat"
      and magic: "\<forall>f\<in>set x64Files. isDivergent e opts arm64Files f \<longrightarrow>
                    (\<exists>c m. extractFile e (x64AsarPath opts) f = Inr c
                       \<and> readUInt32LE c 0 = Inr m \<and> m \<in> MACHO_MAGIC)"
      and nofail: "\<forall>evs c. \<not> fails e evs c"
      and lipo: "\<forall>s d. lipo_create e s d \<noteq> None"
      and d1: "fs_mkdtemp e (path_join (os_tmpdir e) ''x64-'') = Some x64Dir"
      and d2: "fs_mkdtemp e (path_join (os_tmpdir e) ''arm64-'') = Some arm64Dir"
      and fresh: "x64Dir \<noteq> arm64Dir" "x64Dir \<notin> set (tmpdirs w)" "arm64Dir \<notin> set (tmpdirs w)"
  shows "\<exists>w' tree unpack.
           mergeASARs e opts w = (Inr (), w')
           \<and> map_of (packages w') (outputAsarPath opts) = Some (tree, unpack)
           \<and> fst ` set tree = set x64Files \<union> (set arm64Files - set x64Files)"
proof -
  \<comment> \<open>lines 60--116\<close>
  have "\<forall>f\<in>set x64Files. asar_statFile e (x64AsarPath opts) f \<noteq> None"
    using rx by (intro ballI) (rule entryNode_stat, blast)
  from buildUnpacked_ok [OF this] obtain u1 where
    b1: "buildUnpacked e (x64AsarPath opts) x64Files [] = Inr u1" by blast
  have sa: "\<forall>f\<in>set arm64Files. asar_statFile e (arm64AsarPath opts) f \<noteq> None"
    using ra by (intro ballI) (rule entryNode_stat, blast)
  from buildUnpacked_ok [OF this] obtain u where
    b2: "buildUnpacked e (arm64AsarPath opts) arm64Files u1 = Inr u" by blast
  from allow have g1: "checkX64Unique e opts arm64Files x64Files = Inr ()"
    by (subst checkX64Unique_Inr) blast
  define au where "au = filter (\<lambda>f. f \<notin> set x64Files) arm64Files"
  from allow have "\<forall>f\<in>set arm64Files. f \<notin> set x64Files \<longrightarrow>
      (\<exists>pat. singleArchFiles opts = Some pat \<and> minimatch e f pat)"
    by blast
  from checkArm64Unique_ok [OF this, of "[]"]
  have g2: "checkArm64Unique e opts x64Files arm64Files [] = Inr au"
    by (simp add: au_def)
  have "\<forall>f\<in>set x64Files. f \<in> set arm64Files \<longrightarrow>
      isDirectory e (x64AsarPath opts) f = Inr True
      \<or> isDirectory e (x64AsarPath opts) f = Inr False \<and>
        (\<exists>a b. extractFile e (x64AsarPath opts) f = Inr a \<and>
               extractFile e (arm64AsarPath opts) f = Inr b \<and>
               (a \<noteq> b \<longrightarrow> (\<exists>m. readUInt32LE a 0 = Inr m \<and> m \<in> MACHO_MAGIC)))"
  proof (intro ballI impI)
    fix f
    assume fx: "f \<in> set x64Files" and fa: "f \<in> set arm64Files"
    from rx fx have "entryNode e (x64AsarPath opts) f \<noteq> None" by simp
    from entryNode_cases [OF this]
    show "isDirectory e (x64AsarPath opts) f = Inr True
      \<or> isDirectory e (x64AsarPath opts) f = Inr False \<and>
        (\<exists>a b. extractFile e (x64AsarPath opts) f = Inr a \<and>
               extractFile e (arm64AsarPath opts) f = Inr b \<and>
               (a \<noteq> b \<longrightarrow> (\<exists>m. readUInt32LE a 0 = Inr m \<and> m \<in> MACHO_MAGIC)))"
    proof
      assume "isDirectory e (x64AsarPath opts) f = Inr True
               \<and> entryNode e (x64AsarPath opts) f = Some DirNode"
      then show ?thesis by simp
    next
      assume "\<exists>c. isDirectory e (x64AsarPath opts) f = Inr False
                \<and> extractFile e (x64AsarPath opts) f = Inr c
                \<and> entryNode e (x64AsarPath opts) f = Some (FileNode c)"
      then obtain a where dx: "isDirectory e (x64AsarPath opts) f = Inr False"
        and xa: "extractFile e (x64AsarPath opts) f = Inr a" by blast
      from kinds fx fa dx have da: "isDirectory e (arm64AsarPath opts) f = Inr False" by simp
      from ra fa have "entryNode e (arm64AsarPath opts) f \<noteq> None" by simp
      from entryNode_cases [OF this] da obtain b where
        xb: "extractFile e (arm64AsarPath opts) f = Inr b" by auto
      have "a \<noteq> b \<longrightarrow> (\<exists>m. readUInt32LE a 0 = Inr m \<and> m \<in> MACHO_MAGIC)"
      proof
        assume "a \<noteq> b"
        with fa dx xa xb have "isDivergent e opts arm64Files f"
          by (simp add: isDivergent_def)
        with magic fx xa show "\<exists>m. readUInt32LE a 0 = Inr m \<and> m \<in> MACHO_MAGIC" by auto
      qed
      with dx xa xb show ?thesis by blast
    qed
  qed
  from findCommonBindings_ok [OF this, of "[]"] obtain cb where
    g3: "findCommonBindings e opts arm64Files x64Files [] = Inr cb" by blast
  from g1 g2 g3 have v: "validate e opts = Inr (u, au, cb)"
    by (simp add: validate_eq [OF lx la b1 b2])
  from findCommonBindings_Inr [OF g3]
  have cb: "cb = filter (isDivergent e opts arm64Files) x64Files" by simp
  \<comment> \<open>lines 120--121\<close>
  define w1 where "w1 = (logged (Mkdtemp (path_join (os_tmpdir e) ''x64-'')) w)
                          \<lparr>tmpdirs := tmpdirs w @ [x64Dir]\<rparr>"
  define w2 where "w2 = (logged (Mkdtemp (path_join (os_tmpdir e) ''arm64-'')) w1)
                          \<lparr>tmpdirs := tmpdirs w1 @ [arm64Dir]\<rparr>"
  from d1 fresh have m1: "mkdtemp e (path_join (os_tmpdir e) ''x64-'') w = (Inr x64Dir, w1)"
    by (simp add: mkdtemp_def w1_def)
  from d2 fresh have m2: "mkdtemp e (path_join (os_tmpdir e) ''arm64-'') w1 = (Inr arm64Dir, w2)"
    by (simp add: mkdtemp_def w2_def w1_def logged_def)
  \<comment> \<open>lines 123--126\<close>
  from listFiles_Inr [OF lx] obtain l1 where
    l1: "asar_listPackage e (x64AsarPath opts) = Some l1" "set x64Files = set (map toRelativePath l1)"
    by blast
  from listFiles_Inr [OF la] obtain l2 where
    l2: "asar_listPackage e (arm64AsarPath opts) = Some l2" "set arm64Files = set (map toRelativePath l2)"
    by blast
  from rx l1(2) have "\<forall>f\<in>set (map toRelativePath l1). entryNode e (x64AsarPath opts) f \<noteq> None"
    by simp
  from extractEntries_ok [OF this, of "[]"] obtain tx where
    tx: "extractEntries e (x64AsarPath opts) (map toRelativePath l1) [] = Some tx" by blast
  from ra l2(2) have "\<forall>f\<in>set (map toRelativePath l2). entryNode e (arm64AsarPath opts) f \<noteq> None"
    by simp
  from extractEntries_ok [OF this, of "[]"] obtain ta where
    ta: "extractEntries e (arm64AsarPath opts) (map toRelativePath l2) [] = Some ta" by blast
  from extractEntries_Some [OF tx] l1(2)
  have mx: "\<And>k. map_of tx k = (if k \<in> set x64Files then entryNode e (x64AsarPath opts) k else None)"
    by simp
  from extractEntries_Some [OF ta] l2(2)
  have ma: "\<And>k. map_of ta k = (if k \<in> set arm64Files then entryNode e (arm64AsarPath opts) k else None)"
    by simp
  from mx rx have domx: "dom (map_of tx) = set x64Files"
    by (auto simp: dom_def)
  define wx where "wx = logged (ExtractAll (x64AsarPath opts) x64Dir) w2"
  define wa where "wa = logged (ExtractAll (arm64AsarPath opts) arm64Dir) wx"
  from nofail l1(1) tx have e1: "extractAll e (x64AsarPath opts) x64Dir w2 = (Inr tx, wx)"
    by (simp add: extractAll_def wx_def)
  from nofail l2(1) ta have e2: "extractAll e (arm64AsarPath opts) arm64Dir wx = (Inr ta, wa)"
    by (simp add: extractAll_def wa_def)
  \<comment> \<open>lines 127--138\<close>
  have "\<forall>f\<in>set au. asar_statFile e (arm64AsarPath opts) f \<noteq> None \<and> map_of ta f \<noteq> None"
    using sa ra ma by (auto simp: au_def)
  from copyUnique_ok [OF nofail this, of x64Dir arm64Dir tx wa] obtain t3 wb where
    c: "copyUnique e opts x64Dir arm64Dir ta au tx wa = (Inr t3, wb)" by blast
  note k = copyUnique_keeps [OF c]
  \<comment> \<open>lines 139--144\<close>
  have "\<forall>b\<in>set cb. (\<exists>a. map_of ta b = Some (FileNode a)) \<and> (\<exists>c. map_of t3 b = Some (FileNode c))"
  proof
    fix b
    assume "b \<in> set cb"
    with cb have bx: "b \<in> set x64Files" and bd: "isDivergent e opts arm64Files b" by auto
    from isDivergent_D [OF bd] obtain a a' where ba: "b \<in> set arm64Files"
      and dx: "isDirectory e (x64AsarPath opts) b = Inr False"
      and xa: "extractFile e (x64AsarPath opts) b = Inr a"
      and xb: "extractFile e (arm64AsarPath opts) b = Inr a'" by blast
    from kinds bx ba dx have da: "isDirectory e (arm64AsarPath opts) b = Inr False" by simp
    from entryNode_file [OF da xb] ma [of b] ba have 1: "map_of ta b = Some (FileNode a')" by simp
    from entryNode_file [OF dx xa] mx [of b] bx have 2: "map_of tx b = Some (FileNode a)" by simp
    from bx have "b \<notin> set au" by (simp add: au_def)
    with k 2 have "map_of t3 b = Some (FileNode a)" by (simp add: keeps_def)
    with 1 show "(\<exists>a. map_of ta b = Some (FileNode a)) \<and> (\<exists>c. map_of t3 b = Some (FileNode c))"
      by blast
  qed
  from mergeBindings_ok [OF nofail lipo this, of x64Dir arm64Dir wb] obtain t4 wc where
    b: "mergeBindings e x64Dir arm64Dir ta cb t3 wb = (Inr t4, wc)" by blast
  \<comment> \<open>lines 146--153\<close>
  define wd where "wd = (logged (CreatePackage x64Dir (outputAsarPath opts) (unpackOption x64Dir u)) wc)
      \<lparr>packages := AList.update (outputAsarPath opts) (t4, unpackOption x64Dir u) (packages wc)\<rparr>"
  from nofail have p: "createPackageWithOptions e x64Dir t4 (outputAsarPath opts)
                         (unpackOption x64Dir u) wc = (Inr (), wd)"
    by (simp add: createPackageWithOptions_def wd_def)
  from e1 e2 c b p have t: "tryBlock e opts x64Dir arm64Dir u au cb w2 = (Inr (), wd)"
    by (simp add: tryBlock_def)
  obtain r we where f: "finallyBlock e x64Dir arm64Dir wd = (r, we)"
    by (cases "finallyBlock e x64Dir arm64Dir wd")
  from finallyBlock_res [OF f] nofail have r: "r = Inr ()" and pk: "packages we = packages wd"
    by simp_all
  from mergeASARs_eq [OF v m1 m2 t f] r have run: "mergeASARs e opts w = (Inr (), we)"
    by simp
  from pk have out: "map_of (packages we) (outputAsarPath opts) = Some (t4, unpackOption x64Dir u)"
    by (simp add: wd_def update_conv')
  \<comment> \<open>the entries of the packed tree\<close>
  from pl have "[] \<notin> set au"
    by (auto simp: parents_listed_def au_def)
  from copyUnique_dom_has [OF c this] have h1: "set au \<subseteq> dom (map_of t3)" .
  from k domx have h2: "set x64Files \<subseteq> dom (map_of t3)"
    by (simp add: keeps_def)
  have "set au \<subseteq> set arm64Files" by (auto simp: au_def)
  from copyUnique_dom_sub [OF c pl this] domx
  have h3: "dom (map_of t3) \<subseteq> set x64Files \<union> set arm64Files" by simp
  have "set au = set arm64Files - set x64Files" by (auto simp: au_def)
  with h1 h2 h3 have "dom (map_of t3) = set x64Files \<union> (set arm64Files - set x64Files)"
    by blast
  with mergeBindings_tree [OF b] have "dom (map_of t4) = set x64Files \<union> (set arm64Files - set x64Files)"
    by simp
  then have "fst ` set t4 = set x64Files \<union> (set arm64Files - set x64Files)"
    by (simp add: dom_map_of_conv_image_fst)
  with run out show ?thesis by blast
qed

theorem merge_succeeds_witness:
  "\<exists>w' tree unpack.
     mergeASARs scenario scenario_options world0 = (Inr (), w')
     \<and> map_of (packages w') (outputAsarPath scenario_options) = Some (tree, unpack)
     \<and> fst ` set tree
         = set [''a.txt'', ''bin'', ''bin/native'']
           \<union> (set [''a.txt'', ''bin'', ''bin/native'', ''b-only.txt'']
               - set [''a.txt'', ''bin'', ''bin/native''])"
proof -
  have lx: "listFiles scenario (x64AsarPath scenario_options) = Inr [''a.txt'', ''bin'', ''bin/native'']"
    by (simp add: validate_defs scenario_defs)
  have la: "listFiles scenario (arm64AsarPath scenario_options)
             = Inr [''a.txt'', ''bin'', ''bin/native'', ''b-only.txt'']"
    by (simp add: validate_defs scenario_defs)
  have rx: "\<forall>f\<in>set [''a.txt'', ''bin'', ''bin/native''].
              entryNode scenario (x64AsarPath scenario_options) f \<noteq> None"
    by (simp add: entryNode_def scenario_defs)
  have ra: "\<forall>f\<in>set [''a.txt'', ''bin'', ''bin/native'', ''b-only.txt''].
              entryNode scenario (arm64AsarPath scenario_options) f \<noteq> None"
    by (simp add: entryNode_def scenario_defs)
  have kinds: "\<forall>f\<in>set [''a.txt'', ''bin'', ''bin/native'']
                   \<inter> set [''a.txt'', ''bin'', ''bin/native'', ''b-only.txt''].
                 isDirectory scenario (arm64AsarPath scenario_options) f
                   = isDirectory scenario (x64AsarPath scenario_options) f"
    by (simp add: isDirectory_def statFile_def scenario_defs)
  have pl: "parents_listed (set [''a.txt'', ''bin'', ''bin/native'', ''b-only.txt''])"
    by (simp add: parents_listed_def dirname_def)
  have allow: "\<forall>f\<in>(set [''a.txt'', ''bin'', ''bin/native'']
                     - set [''a.txt'', ''bin'', ''bin/native'', ''b-only.txt''])
                  \<union> (set [''a.txt'', ''bin'', ''bin/native'', ''b-only.txt'']
                     - set [''a.txt'', ''bin'', ''bin/native'']).
                 \<exists>pat. singleArchFiles scenario_options = Some pat \<and> minimatch scenario f pat"
    by (simp add: scenario_defs)
  have magic: "\<forall>f\<in>set [''a.txt'', ''bin'', ''bin/native''].
                 isDivergent scenario scenario_options [''a.txt'', ''bin'', ''bin/native'', ''b-only.txt''] f
                 \<longrightarrow> (\<exists>c m. extractFile scenario (x64AsarPath scenario_options) f = Inr c
                       \<and> readUInt32LE c 0 = Inr m \<and> m \<in> MACHO_MAGIC)"
    by (simp add: isDivergent_def validate_defs scenario_defs)
  have nofail: "\<forall>evs c. \<not> fails scenario evs c"
    by (simp add: scenario_def)
  have lipo: "\<forall>s d. lipo_create scenario s d \<noteq> None"
    by (simp add: scenario_def)
  have d1: "fs_mkdtemp scenario (path_join (os_tmpdir scenario) ''x64-'') = Some ''/tmp/x64-Ab12Cd''"
    by (simp add: scenario_def path_join_def)
  have d2: "fs_mkdtemp scenario (path_join (os_tmpdir scenario) ''arm64-'') = Some ''/tmp/arm64-Ab12Cd''"
    by (simp add: scenario_def path_join_def)
  have fresh: "''/tmp/x64-Ab12Cd'' \<noteq> ''/tmp/arm64-Ab12Cd''"
    "''/tmp/x64-Ab12Cd'' \<notin> set (tmpdirs world0)" "''/tmp/arm64-Ab12Cd'' \<notin> set (tmpdirs world0)"
    by (simp_all add: world0_def)
  show ?thesis
    by (rule merge_succeeds [OF lx la rx ra kinds pl allow magic nofail lipo d1 d2 fresh])
qed

text \<open>The claim as stated fails where a collaborator fails: in the scenario every
  unique path matches the pattern and \<^verbatim>\<open>bin/native\<close> starts with \<^verbatim>\<open>0xfeedface\<close> on both
  sides, and when \<^verbatim>\<open>lipo\<close> exits with a nonzero status the call ends with that error and
  writes no archive.\<close>

theorem merge_fails_when_lipo_fails:
  "checkX64Unique scenario_lipo_fails scenario_options
     [''a.txt'', ''bin'', ''bin/native'', ''b-only.txt''] [''a.txt'', ''bin'', ''bin/native''] = Inr ()
   \<and> checkArm64Unique scenario_lipo_fails scenario_options [''a.txt'', ''bin'', ''bin/native'']
       [''a.txt'', ''bin'', ''bin/native'', ''b-only.txt''] [] = Inr [''b-only.txt'']
   \<and> filter (isDivergent scenario_lipo_fails scenario_options
               [''a.txt'', ''bin'', ''bin/native'', ''b-only.txt''])
        [''a.txt'', ''bin'', ''bin/native''] = [''bin/native'']
   \<and> extractFile scenario_lipo_fails ''x64.asar'' ''bin/native'' = Inr [0xce, 0xfa, 0xed, 0xfe, 0x07]
   \<and> extractFile scenario_lipo_fails ''arm64.asar'' ''bin/native'' = Inr [0xce, 0xfa, 0xed, 0xfe, 0x0c]
   \<and> readUInt32LE [0xce, 0xfa, 0xed, 0xfe, 0x07] 0 = Inr 0xfeedface
   \<and> readUInt32LE [0xce, 0xfa, 0xed, 0xfe, 0x0c] 0 = Inr 0xfeedface
   \<and> (0xfeedface :: nat) \<in> MACHO_MAGIC
   \<and> mergeASARs scenario_lipo_fails scenario_options world0
       = (Inl (Failed (Lipo ''/tmp/arm64-Ab12Cd/bin/native'' ''/tmp/x64-Ab12Cd/bin/native'')),
          \<lparr>events =
             [Mkdtemp ''/tmp/x64-'', Mkdtemp ''/tmp/arm64-'',
              ExtractAll ''x64.asar'' ''/tmp/x64-Ab12Cd'',
              ExtractAll ''arm64.asar'' ''/tmp/arm64-Ab12Cd'',
              Mkdirp ''/tmp/x64-Ab12Cd'',
              Copy ''/tmp/arm64-Ab12Cd/b-only.txt'' ''/tmp/x64-Ab12Cd/b-only.txt'',
              Realpath ''/tmp/arm64-Ab12Cd/bin/native'',
              Realpath ''/tmp/x64-Ab12Cd/bin/native'',
              Lipo ''/tmp/arm64-Ab12Cd/bin/native'' ''/tmp/x64-Ab12Cd/bin/native'',
              Remove ''/tmp/x64-Ab12Cd'', Remove ''/tmp/arm64-Ab12Cd''],
           tmpdirs = [], packages = []\<rparr>)"
proof -
  have "mergeASARs scenario_lipo_fails scenario_options world0
       = (Inl (Failed (Lipo ''/tmp/arm64-Ab12Cd/bin/native'' ''/tmp/x64-Ab12Cd/bin/native'')),
          \<lparr>events =
             [Mkdtemp ''/tmp/x64-'', Mkdtemp ''/tmp/arm64-'',
              ExtractAll ''x64.asar'' ''/tmp/x64-Ab12Cd'',
              ExtractAll ''arm64.asar'' ''/tmp/arm64-Ab12Cd'',
              Mkdirp ''/tmp/x64-Ab12Cd'',
              Copy ''/tmp/arm64-Ab12Cd/b-only.txt'' ''/tmp/x64-Ab12Cd/b-only.txt'',
              Realpath ''/tmp/arm64-Ab12Cd/bin/native'',
              Realpath ''/tmp/x64-Ab12Cd/bin/native'',
              Lipo ''/tmp/arm64-Ab12Cd/bin/native'' ''/tmp/x64-Ab12Cd/bin/native'',
              Remove ''/tmp/x64-Ab12Cd'', Remove ''/tmp/arm64-Ab12Cd''],
           tmpdirs = [], packages = []\<rparr>)"
    unfolding mergeASARs_def lipo_fails_validate
    by (simp add: effect_defs scenario_lipo_fails_def scenario_defs toRelativePath_def
          isDirectory_def statFile_def mkdirp_tree.simps)
  then show ?thesis
    by (simp add: isDivergent_def validate_defs scenario_lipo_fails_def scenario_defs)
qed

end
